theory Spec2Isabelle
  imports Main
begin

section \<open>Data model (src/types/Payout.ts, src/types/ApiResponse.ts, src/HttpClient.ts)\<close>

text \<open>
  A JavaScript \<open>number\<close> as the settlement and webhook code meets it: \<open>NaN\<close>, an infinity,
  or a double whose value is an integer, written \<open>Num\<close> of that integer. Negative zero is
  \<open>Num 0\<close>: the code only subtracts, compares and prints these numbers, and there the two
  zeros behave alike. The webhook numbers have no fraction (\<open>parseInt\<close> yields integers and
  the clock is floored); a batch limit and a tolerance are taken as whole numbers.
\<close>

datatype jsnum = NaN | Num int | PosInfinity | NegInfinity

text \<open>\<open>Math.min(a, b)\<close>: \<open>NaN\<close> if either argument is \<open>NaN\<close>, else the smaller one.\<close>

fun Math_min :: "jsnum \<Rightarrow> jsnum \<Rightarrow> jsnum" where
  "Math_min NaN _ = NaN"
| "Math_min _ NaN = NaN"
| "Math_min NegInfinity _ = NegInfinity"
| "Math_min _ NegInfinity = NegInfinity"
| "Math_min PosInfinity b = b"
| "Math_min a PosInfinity = a"
| "Math_min (Num a) (Num b) = Num (min a b)"

text \<open>
  The double nearest to a natural number, as every arithmetic result and every parsed
  literal is rounded: numbers up to \<open>2^53\<close> are doubles themselves; above, a double keeps 53
  binary digits, the rest is rounded to nearest with ties to the even mantissa, and a result
  of \<open>2^1024\<close> or more overflows (\<open>None\<close>, the infinity).
\<close>

fun bitlen :: "nat \<Rightarrow> nat" where
  "bitlen n = (if n = 0 then 0 else Suc (bitlen (n div 2)))"

declare bitlen.simps [simp del]

definition to_double :: "nat \<Rightarrow> nat option" where
  "to_double n =
     (if n \<le> 2 ^ 53 then Some n
      else
        (let e = bitlen n - 53;
             q = n div 2 ^ e;
             r = n mod 2 ^ e;
             h = 2 ^ (e - 1);
             q' = (if h < r \<or> (r = h \<and> odd q) then q + 1 else q);
             v = q' * 2 ^ e
         in if 2 ^ 1024 \<le> v then None else Some v))"

definition number_of_int :: "int \<Rightarrow> jsnum" where
  "number_of_int x =
     (case to_double (nat \<bar>x\<bar>) of
        None \<Rightarrow> if x < 0 then NegInfinity else PosInfinity
      | Some v \<Rightarrow> Num (if x < 0 then - int v else int v))"

text \<open>
  Everything a remote call or a local step can throw. \<open>ZonelessApiError\<close> carries type,
  message and HTTP status (src/HttpClient.ts); \<open>TransportError\<close> stands for what \<open>fetch\<close>
  itself throws (network failure, timeout); \<open>SignerError\<close> for what the key and
  transaction decoders throw; the last one is the webhook error class with its message.
\<close>

datatype error =
    ZonelessApiError string string nat
  | TransportError string
  | SignerError string
  | WebhookSignatureVerificationError string

text \<open>
  The \<open>Payout\<close> object. The client only reads \<open>id\<close>; the other fields are carried through
  as the server sent them. Field names are prefixed because record fields share one name
  space (\<open>po_id\<close> is \<open>Payout.id\<close>, \<open>po_status\<close> is \<open>Payout.status\<close>).
\<close>

record Payout =
  po_id :: string
  po_account :: string
  po_amount :: int
  po_currency :: string
  po_destination :: string
  po_status :: string
  po_failure_message :: "string option"

text \<open>\<open>ListResponse<Payout>\<close>.\<close>

record ListResponse =
  lr_has_more :: bool
  lr_data :: "Payout list"

text \<open>\<open>PayoutBatchBuildResponse\<close>.\<close>

record PayoutBatchBuildResponse =
  unsigned_transaction :: string
  estimated_fee_lamports :: int
  blockhash :: string
  last_valid_block_height :: int
  bb_payouts :: "Payout list"
  bb_total_amount :: int
  recipients_count :: int

text \<open>\<open>PayoutBatchBroadcastResponse\<close>.\<close>

record PayoutBatchBroadcastResponse =
  bc_signature :: string
  bc_status :: string
  bc_viewer_url :: string
  bc_payouts :: "Payout list"
  bc_failure_message :: "string option"

text \<open>\<open>ProcessPendingResult\<close>; an absent \<open>failure_message\<close> is \<open>None\<close>.\<close>

record ProcessPendingResult =
  signature :: string
  status :: string
  viewer_url :: string
  payouts :: "Payout list"
  total_amount :: int
  has_more :: bool
  failure_message :: "string option"

text \<open>\<open>RequestExtraOptions\<close>, passed through to every remote call.\<close>

record RequestExtraOptions =
  headers :: "(string \<times> string) list"
  idempotencyKey :: "string option"
  zonelessAccount :: "string option"

text \<open>The second parameter of \<open>processBatch\<close>: \<open>{limit?: number; requestOptions?: ...}\<close>.\<close>

record BatchOptions =
  limit :: "jsnum option"
  requestOptions :: "RequestExtraOptions option"

text \<open>The parameters \<open>processBatch\<close> gives to \<open>list\<close>: \<open>{status: 'pending', limit}\<close>.\<close>

record ListPayoutsInput =
  lp_status :: string
  lp_limit :: jsnum

section \<open>The remote service and the signing library\<close>

text \<open>
  The three endpoints \<open>list\<close>, \<open>build\<close> and \<open>broadcast\<close> of \<open>Payouts\<close> forward to the HTTP
  client. The server is a state \<open>'s\<close>; a call takes its arguments and the state and returns
  the response, or the error it throws, with the state after the call.
\<close>

record 's Remote =
  list :: "ListPayoutsInput \<Rightarrow> RequestExtraOptions option \<Rightarrow> 's \<Rightarrow> (error + ListResponse) \<times> 's"
  build :: "string list \<Rightarrow> RequestExtraOptions option \<Rightarrow> 's
              \<Rightarrow> (error + PayoutBatchBuildResponse) \<times> 's"
  broadcast :: "string \<Rightarrow> string list \<Rightarrow> RequestExtraOptions option \<Rightarrow> 's
              \<Rightarrow> (error + PayoutBatchBroadcastResponse) \<times> 's"

text \<open>
  The functions of \<open>bs58\<close>, \<open>Buffer\<close> and \<open>@solana/web3.js\<close> that \<open>SignTransaction\<close>
  calls. They are not part of the repository and are parameters of the model; \<open>'kp\<close> is
  the library's key pair and \<open>'tx\<close> its transaction object; a byte is a \<open>char\<close>.
\<close>

type_synonym bytes = "char list"

record ('kp, 'tx) SolanaLib =
  bs58_decode :: "string \<Rightarrow> error + bytes"
  Keypair_fromSecretKey :: "bytes \<Rightarrow> error + 'kp"
  Buffer_from_base64 :: "string \<Rightarrow> bytes"
  Transaction_from :: "bytes \<Rightarrow> error + 'tx"
  partialSign :: "'tx \<Rightarrow> 'kp \<Rightarrow> error + 'tx"
  serialize :: "'tx \<Rightarrow> error + bytes"
  toString_base64 :: "bytes \<Rightarrow> string"

text \<open>What a run did, in order: the remote calls with their arguments and the local signing step.\<close>

datatype call =
    ListCall ListPayoutsInput "RequestExtraOptions option"
  | BuildCall "string list" "RequestExtraOptions option"
  | SignCall string string
  | BroadcastCall string "string list" "RequestExtraOptions option"

section \<open>Payouts (src/resources/Payouts.ts)\<close>

text \<open>\<open>Payouts.SignTransaction\<close>: each library call may throw, which ends the function.\<close>

definition SignTransaction :: "('kp, 'tx) SolanaLib \<Rightarrow> string \<Rightarrow> string \<Rightarrow> error + string" where
  "SignTransaction lib unsignedTransaction secretKey =
     (case bs58_decode lib secretKey of
        Inl e \<Rightarrow> Inl e
      | Inr keyBytes \<Rightarrow>
     (case Keypair_fromSecretKey lib keyBytes of
        Inl e \<Rightarrow> Inl e
      | Inr keypair \<Rightarrow>
     (case Transaction_from lib (Buffer_from_base64 lib unsignedTransaction) of
        Inl e \<Rightarrow> Inl e
      | Inr transaction \<Rightarrow>
     (case partialSign lib transaction keypair of
        Inl e \<Rightarrow> Inl e
      | Inr signed \<Rightarrow>
     (case serialize lib signed of
        Inl e \<Rightarrow> Inl e
      | Inr bytes \<Rightarrow> Inr (toString_base64 lib bytes))))))"

text \<open>The literal \<open>processBatch\<close> returns when nothing is pending.\<close>

definition zero_result :: ProcessPendingResult where
  "zero_result = \<lparr>signature = '''', status = ''paid'', viewer_url = '''', payouts = [],
                   total_amount = 0, has_more = False, failure_message = None\<rparr>"

text \<open>\<open>Math.min(options?.limit ?? 10, 10)\<close> and \<open>options?.requestOptions\<close>.\<close>

definition effective_limit :: "BatchOptions option \<Rightarrow> jsnum" where
  "effective_limit options =
     Math_min (case options of None \<Rightarrow> Num 10
               | Some opts \<Rightarrow> (case limit opts of None \<Rightarrow> Num 10 | Some l \<Rightarrow> l)) (Num 10)"

definition request_options :: "BatchOptions option \<Rightarrow> RequestExtraOptions option" where
  "request_options options = (case options of None \<Rightarrow> None | Some opts \<Rightarrow> requestOptions opts)"

text \<open>
  \<open>Payouts.processBatch\<close>. The result is what the method returns or throws, the server state
  after its last call, and the calls it made.
\<close>

definition processBatch ::
  "('kp, 'tx) SolanaLib \<Rightarrow> 's Remote \<Rightarrow> string \<Rightarrow> BatchOptions option \<Rightarrow> 's
     \<Rightarrow> (error + ProcessPendingResult) \<times> 's \<times> call list" where
  "processBatch lib srv secretKey options s =
     (let lim = effective_limit options;
          ropts = request_options options;
          params = \<lparr>lp_status = ''pending'', lp_limit = lim\<rparr>
      in case list srv params ropts s of
           (Inl e, s1) \<Rightarrow> (Inl e, s1, [ListCall params ropts])
         | (Inr pendingPayouts, s1) \<Rightarrow>
             if length (lr_data pendingPayouts) = 0
             then (Inr zero_result, s1, [ListCall params ropts])
             else
               (let payoutIds = map po_id (lr_data pendingPayouts)
                in case build srv payoutIds ropts s1 of
                     (Inl e, s2) \<Rightarrow>
                       (Inl e, s2, [ListCall params ropts, BuildCall payoutIds ropts])
                   | (Inr buildResult, s2) \<Rightarrow>
                       (case SignTransaction lib (unsigned_transaction buildResult) secretKey of
                          Inl e \<Rightarrow>
                            (Inl e, s2,
                             [ListCall params ropts, BuildCall payoutIds ropts,
                              SignCall (unsigned_transaction buildResult) secretKey])
                        | Inr signedTransaction \<Rightarrow>
                            (case broadcast srv signedTransaction payoutIds ropts s2 of
                               (Inl e, s3) \<Rightarrow>
                                 (Inl e, s3,
                                  [ListCall params ropts, BuildCall payoutIds ropts,
                                   SignCall (unsigned_transaction buildResult) secretKey,
                                   BroadcastCall signedTransaction payoutIds ropts])
                             | (Inr broadcastResult, s3) \<Rightarrow>
                                 (Inr \<lparr>signature = bc_signature broadcastResult,
                                       status = bc_status broadcastResult,
                                       viewer_url = bc_viewer_url broadcastResult,
                                       payouts = bc_payouts broadcastResult,
                                       total_amount = bb_total_amount buildResult,
                                       has_more = lr_has_more pendingPayouts,
                                       failure_message = bc_failure_message broadcastResult\<rparr>,
                                  s3,
                                  [ListCall params ropts, BuildCall payoutIds ropts,
                                   SignCall (unsigned_transaction buildResult) secretKey,
                                   BroadcastCall signedTransaction payoutIds ropts])))))"

text \<open>
  How \<open>processAll\<close> ends: it returns the accumulated array, or an exception leaves the loop.
  \<open>Thrown\<close> also records the local array \<open>results\<close> at that moment; the caller receives
  the error only.
\<close>

datatype loop_outcome =
    Returned "ProcessPendingResult list"
  | Thrown error "ProcessPendingResult list"

text \<open>
  The \<open>while (hasMore)\<close> loop of \<open>Payouts.processAll\<close>, with the loop variables \<open>results\<close>
  and \<open>hasMore\<close> as arguments. Nothing bounds the number of rounds, so the loop is a
  partial function: \<open>None\<close> is a run that never returns.
\<close>

partial_function (option) processAll_loop ::
  "('kp, 'tx) SolanaLib \<Rightarrow> 's Remote \<Rightarrow> string \<Rightarrow> RequestExtraOptions option \<Rightarrow> 's
     \<Rightarrow> ProcessPendingResult list \<Rightarrow> bool \<Rightarrow> call list
     \<Rightarrow> (loop_outcome \<times> 's \<times> call list) option" where
  "processAll_loop lib srv secretKey options s results hasMore tr =
     (if hasMore then
        (case processBatch lib srv secretKey
                (Some \<lparr>limit = None, requestOptions = options\<rparr>) s of
           (Inl e, s1, tr1) \<Rightarrow> Some (Thrown e results, s1, tr @ tr1)
         | (Inr result, s1, tr1) \<Rightarrow>
             processAll_loop lib srv secretKey options s1
               (if length (payouts result) > 0 then results @ [result] else results)
               (has_more result) (tr @ tr1))
      else Some (Returned results, s, tr))"

definition processAll ::
  "('kp, 'tx) SolanaLib \<Rightarrow> 's Remote \<Rightarrow> string \<Rightarrow> RequestExtraOptions option \<Rightarrow> 's
     \<Rightarrow> (loop_outcome \<times> 's \<times> call list) option" where
  "processAll lib srv secretKey options s =
     processAll_loop lib srv secretKey options s [] True []"

text \<open>
  \<open>run_rounds n s\<close> is \<open>n\<close> successive invocations of \<open>processBatch\<close> as \<open>processAll\<close>
  makes them, each on the state the one before left: the round results in order, the
  final state and all calls made, or \<open>None\<close> when one of the rounds throws.
\<close>

fun run_rounds ::
  "('kp, 'tx) SolanaLib \<Rightarrow> 's Remote \<Rightarrow> string \<Rightarrow> RequestExtraOptions option \<Rightarrow> nat \<Rightarrow> 's
     \<Rightarrow> (ProcessPendingResult list \<times> 's \<times> call list) option" where
  "run_rounds lib srv secretKey options 0 s = Some ([], s, [])"
| "run_rounds lib srv secretKey options (Suc n) s =
     (case processBatch lib srv secretKey (Some \<lparr>limit = None, requestOptions = options\<rparr>) s of
        (Inl e, s1, tr1) \<Rightarrow> None
      | (Inr result, s1, tr1) \<Rightarrow>
          (case run_rounds lib srv secretKey options n s1 of
             None \<Rightarrow> None
           | Some (rs, s2, tr2) \<Rightarrow> Some (result # rs, s2, tr1 @ tr2)))"

text \<open>The arguments of the calls of each kind in a trace, in order.\<close>

fun list_args :: "call list \<Rightarrow> ListPayoutsInput list" where
  "list_args [] = []"
| "list_args (ListCall p _ # cs) = p # list_args cs"
| "list_args (_ # cs) = list_args cs"

fun build_args :: "call list \<Rightarrow> string list list" where
  "build_args [] = []"
| "build_args (BuildCall ids _ # cs) = ids # build_args cs"
| "build_args (_ # cs) = build_args cs"

fun sign_args :: "call list \<Rightarrow> (string \<times> string) list" where
  "sign_args [] = []"
| "sign_args (SignCall tx k # cs) = (tx, k) # sign_args cs"
| "sign_args (_ # cs) = sign_args cs"

fun broadcast_args :: "call list \<Rightarrow> (string \<times> string list) list" where
  "broadcast_args [] = []"
| "broadcast_args (BroadcastCall tx ids _ # cs) = (tx, ids) # broadcast_args cs"
| "broadcast_args (_ # cs) = broadcast_args cs"

text \<open>The number of rounds in the array a run returned, and the number of \<open>list\<close> calls
  (one per round) a run made.\<close>

fun returned_count :: "(loop_outcome \<times> 's \<times> call list) option \<Rightarrow> nat option" where
  "returned_count (Some (Returned rs, s, tr)) = Some (length rs)"
| "returned_count _ = None"

fun rounds_made :: "(loop_outcome \<times> 's \<times> call list) option \<Rightarrow> nat option" where
  "rounds_made (Some (out, s, tr)) = Some (length (list_args tr))"
| "rounds_made None = None"


section \<open>Webhooks (class \<open>Webhooks\<close>, in the sources with src/resources/LoginLinks.ts)\<close>

text \<open>
  Strings are lists of \<open>char\<close>, one \<open>char\<close> per code unit below 256.
  \<open>String.prototype.split\<close> with a one-character separator: the pieces between the
  separators, empty pieces included; the empty string gives one empty piece.
\<close>

fun js_split :: "char \<Rightarrow> string \<Rightarrow> string list" where
  "js_split sep [] = [[]]"
| "js_split sep (c # cs) =
     (if c = sep then [] # js_split sep cs
      else (case js_split sep cs of [] \<Rightarrow> [[c]] | w # ws \<Rightarrow> (c # w) # ws))"

text \<open>A property value of the parsed header: a string, or an array of strings.\<close>

datatype hval = Str string | Arr "string list"

text \<open>JavaScript truthiness of \<open>acc[key]\<close>: \<open>undefined\<close> and the empty string are falsy.\<close>

fun truthy :: "hval option \<Rightarrow> bool" where
  "truthy None = False"
| "truthy (Some (Str v)) = (v \<noteq> [])"
| "truthy (Some (Arr vs)) = True"

text \<open>
  The reducer of \<open>ParseHeader\<close>: \<open>const [key, value] = item.split('=')\<close> takes the first two
  pieces, \<open>value\<close> being \<open>undefined\<close> when there is one piece only. The accumulator is the
  object's own properties; the model is exact for every key that \<open>Object.prototype\<close> does
  not define, \<open>t\<close> and \<open>v1\<close> among them.
\<close>

definition header_item :: "(string \<rightharpoonup> hval) \<Rightarrow> string \<Rightarrow> (string \<rightharpoonup> hval)" where
  "header_item acc item =
     (case js_split CHR ''='' item of
        key # value # _ \<Rightarrow>
          if key \<noteq> [] \<and> value \<noteq> [] then
            (if truthy (acc key) then
               (case acc key of
                  Some (Arr vs) \<Rightarrow> acc(key \<mapsto> Arr (vs @ [value]))
                | Some (Str v) \<Rightarrow> acc(key \<mapsto> Arr [v, value])
                | None \<Rightarrow> acc(key \<mapsto> Str value))
             else acc(key \<mapsto> Str value))
          else acc
      | _ \<Rightarrow> acc)"

definition ParseHeader :: "string \<Rightarrow> (string \<rightharpoonup> hval)" where
  "ParseHeader header = foldl header_item Map.empty (js_split CHR '','' header)"

text \<open>
  \<open>parseInt(s, 10)\<close>: skip leading white space, read an optional sign, then the longest
  run of decimal digits; \<open>NaN\<close> when there is no digit. What follows the digits is ignored.
  The result is the double nearest to the integer the digits denote, an infinity when that
  is out of range.
\<close>

definition is_ws :: "char \<Rightarrow> bool" where
  "is_ws c = ((of_char c :: nat) \<in> {9, 10, 11, 12, 13, 32, 160})"

definition is_digit :: "char \<Rightarrow> bool" where
  "is_digit c = (48 \<le> (of_char c :: nat) \<and> (of_char c :: nat) \<le> 57)"

definition digits_value :: "string \<Rightarrow> nat" where
  "digits_value ds = foldl (\<lambda>a c. 10 * a + (of_char c - 48)) 0 ds"

definition parseInt10 :: "string \<Rightarrow> jsnum" where
  "parseInt10 str =
     (let s1 = dropWhile is_ws str;
          neg = (case s1 of c # _ \<Rightarrow> c = CHR ''-'' | [] \<Rightarrow> False);
          s2 = (case s1 of c # r \<Rightarrow> if c = CHR ''-'' \<or> c = CHR ''+'' then r else s1 | [] \<Rightarrow> []);
          ds = takeWhile is_digit s2
      in if ds = [] then NaN
         else number_of_int ((if neg then - 1 else 1) * int (digits_value ds)))"

text \<open>The decimal digits of a natural number, and the decimal text of an integer.\<close>

definition digit_char :: "nat \<Rightarrow> char" where
  "digit_char d = ''0123456789'' ! d"

fun nat_to_dec :: "nat \<Rightarrow> string" where
  "nat_to_dec n =
     (if n < 10 then [digit_char n]
      else nat_to_dec (n div 10) @ [digit_char (n mod 10)])"

definition decimal :: "int \<Rightarrow> string" where
  "decimal n = (if n < 0 then CHR ''-'' # nat_to_dec (nat (- n)) else nat_to_dec (nat n))"

text \<open>
  A number as the template literal \<open>`${timestamp}.${payload}`\<close> renders it. An integer up to
  \<open>2^53\<close> prints all its digits. A larger double prints the shortest run of significant digits
  that still denotes it (the decimal nearest to it among the shortest, the even one on a
  tie), filled with zeros below \<open>10^21\<close> and in exponent form from there on.

  \<open>shortest_at a k\<close> is the choice among the decimals of \<open>k\<close> significant digits, if one
  of them rounds to \<open>a\<close>: only the two that enclose \<open>a\<close> can be nearest.
\<close>

definition shortest_at :: "nat \<Rightarrow> nat \<Rightarrow> nat option" where
  "shortest_at a k =
     (let step = 10 ^ (length (nat_to_dec a) - k);
          lo = (a div step) * step;
          hi = lo + step;
          okl = (to_double lo = Some a);
          okh = (to_double hi = Some a)
      in if okl \<and> okh then
           (if a - lo < hi - a then Some lo
            else if hi - a < a - lo then Some hi
            else if even (lo div step) then Some lo else Some hi)
         else if okl then Some lo
         else if okh then Some hi
         else None)"

fun shortest_from :: "nat \<Rightarrow> nat list \<Rightarrow> nat" where
  "shortest_from a [] = a"
| "shortest_from a (k # ks) =
     (case shortest_at a k of Some v \<Rightarrow> v | None \<Rightarrow> shortest_from a ks)"

definition shortest_decimal :: "nat \<Rightarrow> nat" where
  "shortest_decimal a = shortest_from a [1..<18]"

definition strip_zeros :: "string \<Rightarrow> string" where
  "strip_zeros s = rev (dropWhile (\<lambda>c. c = CHR ''0'') (rev s))"

definition exponent_form :: "nat \<Rightarrow> string" where
  "exponent_form v =
     (let s = nat_to_dec v
      in (case strip_zeros s of
            [] \<Rightarrow> []
          | c # rest \<Rightarrow> c # (if rest = [] then [] else CHR ''.'' # rest))
         @ ''e+'' @ nat_to_dec (length s - 1))"

definition nat_toString :: "nat \<Rightarrow> string" where
  "nat_toString a =
     (let v = (if a \<le> 2 ^ 53 then a else shortest_decimal a)
      in if v < 10 ^ 21 then nat_to_dec v else exponent_form v)"

fun js_toString :: "jsnum \<Rightarrow> string" where
  "js_toString NaN = ''NaN''"
| "js_toString PosInfinity = ''Infinity''"
| "js_toString NegInfinity = ''-Infinity''"
| "js_toString (Num n) =
     (if n < 0 then CHR ''-'' # nat_toString (nat (- n)) else nat_toString (nat n))"

text \<open>
  \<open>now - timestamp > tolerance\<close>: the difference of two doubles is rounded to a double; a
  comparison with \<open>NaN\<close> on either side is false.
\<close>

fun js_sub :: "jsnum \<Rightarrow> jsnum \<Rightarrow> jsnum" where
  "js_sub NaN _ = NaN"
| "js_sub _ NaN = NaN"
| "js_sub (Num a) (Num b) = number_of_int (a - b)"
| "js_sub (Num a) PosInfinity = NegInfinity"
| "js_sub (Num a) NegInfinity = PosInfinity"
| "js_sub PosInfinity PosInfinity = NaN"
| "js_sub PosInfinity _ = PosInfinity"
| "js_sub NegInfinity NegInfinity = NaN"
| "js_sub NegInfinity _ = NegInfinity"

fun js_gt :: "jsnum \<Rightarrow> jsnum \<Rightarrow> bool" where
  "js_gt NaN _ = False"
| "js_gt _ NaN = False"
| "js_gt (Num a) (Num b) = (b < a)"
| "js_gt NegInfinity _ = False"
| "js_gt _ PosInfinity = False"
| "js_gt _ _ = True"

text \<open>
  \<open>Array.isArray(details.t) ? details.t[0] : details.t\<close>, as \<open>parseInt\<close> reads it
  (\<open>undefined\<close> is converted to the string \<open>undefined\<close>).
\<close>

fun timestampStr_of :: "hval option \<Rightarrow> string" where
  "timestampStr_of (Some (Str v)) = v"
| "timestampStr_of (Some (Arr (v # _))) = v"
| "timestampStr_of _ = ''undefined''"

text \<open>
  \<open>Array.isArray(details.v1) ? details.v1 : [details.v1]\<close>. \<open>Verify\<close> has thrown before
  this line when \<open>details.v1\<close> is \<open>undefined\<close>.
\<close>

fun signatures_of :: "hval option \<Rightarrow> string list" where
  "signatures_of (Some (Arr vs)) = vs"
| "signatures_of (Some (Str v)) = [v]"
| "signatures_of None = []"

text \<open>
  \<open>crypto.timingSafeEqual\<close> on two buffers of equal length. \<open>Buffer.from\<close> encodes a string
  in UTF-8, which is injective on these strings, so the model compares the strings themselves.
\<close>

definition timingSafeEqual :: "string \<Rightarrow> string \<Rightarrow> bool" where
  "timingSafeEqual a b = (a = b)"

text \<open>
  The three failures of \<open>Verify\<close>. The source has one error class and tells them apart by
  message: no timestamp or no signature in the header, a timestamp outside the tolerance,
  and no matching signature.
\<close>

definition missing_error :: error where
  "missing_error = WebhookSignatureVerificationError
     ''Unable to extract timestamp and signatures from header''"

definition tolerance_error :: error where
  "tolerance_error = WebhookSignatureVerificationError ''Timestamp outside the tolerance zone''"

definition mismatch_error :: error where
  "mismatch_error = WebhookSignatureVerificationError
     ''No signatures found matching the expected signature for payload''"

text \<open>
  \<open>Webhooks.Verify\<close>. The HMAC-SHA256 of node's \<open>crypto\<close>, hex encoded, is the parameter
  \<open>hmac\<close> (key, then message); \<open>date_now\<close> is what \<open>Date.now()\<close> returns, an integer number
  of milliseconds of magnitude at most \<open>8.64 * 10^15\<close>, on which \<open>Math.floor(Date.now() / 1000)\<close>
  is the integer quotient. The tolerance is taken in whole seconds.
\<close>

definition Verify ::
  "(string \<Rightarrow> string \<Rightarrow> string) \<Rightarrow> int \<Rightarrow> string \<Rightarrow> string \<Rightarrow> string \<Rightarrow> int \<Rightarrow> error + unit" where
  "Verify hmac date_now payload header secret tolerance =
     (let details = ParseHeader header
      in if \<not> truthy (details ''t'') \<or> \<not> truthy (details ''v1'') then Inl missing_error
         else
           (let timestampStr = timestampStr_of (details ''t'');
                timestamp = parseInt10 timestampStr;
                now = date_now div 1000
            in if tolerance > 0 \<and> js_gt (js_sub (Num now) timestamp) (Num tolerance)
               then Inl tolerance_error
               else
                 (let signedPayload = js_toString timestamp @ ''.'' @ payload;
                      expectedSignature = hmac secret signedPayload;
                      signatures = signatures_of (details ''v1'');
                      match = list_ex (\<lambda>sig.
                                if length sig \<noteq> length expectedSignature then False
                                else timingSafeEqual sig expectedSignature) signatures
                  in if \<not> match then Inl mismatch_error else Inr ())))"

text \<open>The values that the pairs of a header give to one key, in the order of the header:
  the pairs whose key and value are both non-empty.\<close>

definition pair_values :: "string \<Rightarrow> string list \<Rightarrow> string list" where
  "pair_values k items =
     concat (map (\<lambda>item. case js_split CHR ''='' item of
                            key # value # _ \<Rightarrow> if key = k \<and> key \<noteq> [] \<and> value \<noteq> [] then [value] else []
                          | _ \<Rightarrow> []) items)"

declare nat_to_dec.simps [simp del]

text \<open>The values of the locals \<open>timestamp\<close> and \<open>expectedSignature\<close> of \<open>Verify\<close> for a header.\<close>

definition timestamp_of :: "string \<Rightarrow> jsnum" where
  "timestamp_of header = parseInt10 (timestampStr_of (ParseHeader header ''t''))"

definition expectedSignature_of ::
  "(string \<Rightarrow> string \<Rightarrow> string) \<Rightarrow> string \<Rightarrow> string \<Rightarrow> string \<Rightarrow> string" where
  "expectedSignature_of hmac secret header payload =
     hmac secret (js_toString (timestamp_of header) @ ''.'' @ payload)"

section \<open>Test doubles\<close>

text \<open>
  A server with canned \<open>list\<close> responses, served in order and cut to the requested limit
  (which it accepts between 1 and 100, as \<open>ListPayoutsSchema\<close> has it), whose \<open>broadcast\<close> fails at one chosen call; and a signing library that counts signatures
  and writes one mark per signature.
\<close>

record Canned =
  queue :: "ListResponse list"
  broadcasts :: nat
  fail_at :: "nat option"

definition invalid_limit :: error where
  "invalid_limit = ZonelessApiError ''invalid_request_error'' ''Invalid limit'' 400"

definition canned_list ::
  "ListPayoutsInput \<Rightarrow> RequestExtraOptions option \<Rightarrow> Canned \<Rightarrow> (error + ListResponse) \<times> Canned" where
  "canned_list params ropts s =
     (case lp_limit params of
        NaN \<Rightarrow> (Inl invalid_limit, s)
      | Num n \<Rightarrow>
          if n < 1 \<or> 100 < n then (Inl invalid_limit, s)
          else
            (case queue s of
               [] \<Rightarrow> (Inr \<lparr>lr_has_more = False, lr_data = []\<rparr>, s)
             | r # rest \<Rightarrow>
                 (Inr (r\<lparr>lr_data := take (nat n) (lr_data r)\<rparr>), s\<lparr>queue := rest\<rparr>)))"

definition canned_build ::
  "string list \<Rightarrow> RequestExtraOptions option \<Rightarrow> Canned
     \<Rightarrow> (error + PayoutBatchBuildResponse) \<times> Canned" where
  "canned_build ids ropts s =
     (Inr \<lparr>unsigned_transaction = ''dHg='', estimated_fee_lamports = 5000, blockhash = ''h'',
           last_valid_block_height = 1, bb_payouts = [],
           bb_total_amount = 100 * int (length ids), recipients_count = int (length ids)\<rparr>, s)"

definition paid :: "string \<Rightarrow> Payout" where
  "paid i = \<lparr>po_id = i, po_account = ''acct_1'', po_amount = 100, po_currency = ''usdc'',
             po_destination = ''w_1'', po_status = ''paid'', po_failure_message = None\<rparr>"

definition pending :: "string \<Rightarrow> Payout" where
  "pending i = \<lparr>po_id = i, po_account = ''acct_1'', po_amount = 100, po_currency = ''usdc'',
                po_destination = ''w_1'', po_status = ''pending'', po_failure_message = None\<rparr>"

definition broadcast_failure :: error where
  "broadcast_failure = ZonelessApiError ''api_error'' ''broadcast failed'' 500"

definition canned_broadcast ::
  "string \<Rightarrow> string list \<Rightarrow> RequestExtraOptions option \<Rightarrow> Canned
     \<Rightarrow> (error + PayoutBatchBroadcastResponse) \<times> Canned" where
  "canned_broadcast signed ids ropts s =
     (if fail_at s = Some (broadcasts s)
      then (Inl broadcast_failure, s\<lparr>broadcasts := Suc (broadcasts s)\<rparr>)
      else (Inr \<lparr>bc_signature = ''5sig'', bc_status = ''paid'', bc_viewer_url = ''https://v'',
                 bc_payouts = map paid ids, bc_failure_message = None\<rparr>,
            s\<lparr>broadcasts := Suc (broadcasts s)\<rparr>))"

definition canned :: "Canned Remote" where
  "canned = \<lparr>list = canned_list, build = canned_build, broadcast = canned_broadcast\<rparr>"

definition counting_lib :: "(bytes, bytes \<times> nat) SolanaLib" where
  "counting_lib =
     \<lparr>bs58_decode = Inr,
      Keypair_fromSecretKey = Inr,
      Buffer_from_base64 = (\<lambda>s. s),
      Transaction_from = (\<lambda>b. Inr (b, 0)),
      partialSign = (\<lambda>t kp. Inr (fst t, Suc (snd t))),
      serialize = (\<lambda>t. Inr (fst t @ replicate (snd t) (CHR ''!''))),
      toString_base64 = (\<lambda>b. b)\<rparr>"

text \<open>A keyed digest standing in for the HMAC in examples.\<close>

definition concat_mac :: "string \<Rightarrow> string \<Rightarrow> string" where
  "concat_mac secret msg = secret @ msg"

definition nothing_pending :: Canned where
  "nothing_pending =
     \<lparr>queue = [\<lparr>lr_has_more = True, lr_data = []\<rparr>], broadcasts = 0, fail_at = None\<rparr>"

definition two_pending :: Canned where
  "two_pending =
     \<lparr>queue = [\<lparr>lr_has_more = False, lr_data = [pending ''po_1'', pending ''po_2'']\<rparr>],
      broadcasts = 0, fail_at = None\<rparr>"



text \<open>What a round on the canned server returns for the listed identifiers.\<close>

definition settled :: "string list \<Rightarrow> bool \<Rightarrow> ProcessPendingResult" where
  "settled ids hm =
     \<lparr>signature = ''5sig'', status = ''paid'', viewer_url = ''https://v'',
      payouts = map paid ids, total_amount = 100 * int (length ids), has_more = hm,
      failure_message = None\<rparr>"

definition one_then_nothing :: Canned where
  "one_then_nothing =
     \<lparr>queue = [\<lparr>lr_has_more = True, lr_data = [pending ''po_1'', pending ''po_2'']\<rparr>,
               \<lparr>lr_has_more = True, lr_data = []\<rparr>],
      broadcasts = 0, fail_at = None\<rparr>"

definition three_rounds :: Canned where
  "three_rounds =
     \<lparr>queue = [\<lparr>lr_has_more = True, lr_data = [pending ''po_1'']\<rparr>,
               \<lparr>lr_has_more = True, lr_data = [pending ''po_2'']\<rparr>,
               \<lparr>lr_has_more = False, lr_data = [pending ''po_3'']\<rparr>],
      broadcasts = 0, fail_at = None\<rparr>"

definition second_broadcast_fails :: Canned where
  "second_broadcast_fails =
     \<lparr>queue = [\<lparr>lr_has_more = True, lr_data = [pending ''po_1'']\<rparr>,
               \<lparr>lr_has_more = True, lr_data = [pending ''po_2'']\<rparr>,
               \<lparr>lr_has_more = False, lr_data = [pending ''po_3'']\<rparr>],
      broadcasts = 0, fail_at = Some 1\<rparr>"

section \<open>Properties of the batch orchestrator\<close>

lemmas canned_simps =
  processBatch_def Let_def canned_def canned_list_def canned_build_def canned_broadcast_def
  counting_lib_def SignTransaction_def effective_limit_def request_options_def
  pending_def paid_def zero_result_def

text \<open>
  C1. When the \<open>list\<close> call of \<open>processBatch\<close> succeeds with an empty payout list, the
  method returns exactly \<open>{signature: "", status: "paid", viewer_url: "", payouts: [],
  total_amount: 0, has_more: false}\<close> (whatever \<open>has_more\<close> the server sent), and the only
  call it has made is that \<open>list\<close> call: no build, no signing, no broadcast.
\<close>

theorem processBatch_zero_pending:
  assumes "list srv \<lparr>lp_status = ''pending'', lp_limit = effective_limit options\<rparr>
             (request_options options) s = (Inr resp, s1)"
      and "lr_data resp = []"
  shows "processBatch lib srv secretKey options s =
           (Inr \<lparr>signature = '''', status = ''paid'', viewer_url = '''', payouts = [],
                 total_amount = 0, has_more = False, failure_message = None\<rparr>,
            s1,
            [ListCall \<lparr>lp_status = ''pending'', lp_limit = effective_limit options\<rparr>
               (request_options options)])
         \<and> build_args (snd (snd (processBatch lib srv secretKey options s))) = []
         \<and> sign_args (snd (snd (processBatch lib srv secretKey options s))) = []
         \<and> broadcast_args (snd (snd (processBatch lib srv secretKey options s))) = []"
  using assms by (simp add: processBatch_def Let_def zero_result_def)

theorem processBatch_zero_pending_witness:
  "processBatch counting_lib canned ''key'' None nothing_pending =
     (Inr \<lparr>signature = '''', status = ''paid'', viewer_url = '''', payouts = [],
           total_amount = 0, has_more = False, failure_message = None\<rparr>,
      nothing_pending\<lparr>queue := []\<rparr>,
      [ListCall \<lparr>lp_status = ''pending'', lp_limit = Num 10\<rparr> None])
   \<and> build_args (snd (snd (processBatch counting_lib canned ''key'' None nothing_pending))) = []
   \<and> sign_args (snd (snd (processBatch counting_lib canned ''key'' None nothing_pending))) = []
   \<and> broadcast_args (snd (snd (processBatch counting_lib canned ''key'' None nothing_pending))) = []"
proof -
  have l: "list canned \<lparr>lp_status = ''pending'', lp_limit = effective_limit None\<rparr>
             (request_options None) nothing_pending
           = (Inr \<lparr>lr_has_more = True, lr_data = []\<rparr>, nothing_pending\<lparr>queue := []\<rparr>)"
    by (simp add: canned_def canned_list_def nothing_pending_def effective_limit_def)
  have d: "lr_data \<lparr>lr_has_more = True, lr_data = []\<rparr> = []" by simp
  show ?thesis
    using processBatch_zero_pending [OF l d, of counting_lib "''key''"]
    by (simp add: effective_limit_def request_options_def)
qed

text \<open>
  C2. When the \<open>list\<close> call returns a non-empty payout list, \<open>processBatch\<close> applies \<open>build\<close> to
  exactly the identifiers of the listed payouts, in the order received, on the state the
  \<open>list\<close> call left, and applies \<open>broadcast\<close> to the signed transaction and that same
  identifier list on the state \<open>build\<close> left. Whatever these calls return decides the outcome:
  a failure of \<open>build\<close>, of the signing step or of \<open>broadcast\<close> is the failure of
  \<open>processBatch\<close>, and the response of \<open>broadcast\<close> to that identifier list, with the total of
  \<open>build\<close> and the \<open>has_more\<close> of \<open>list\<close>, is its result. The build call is made once, and the
  broadcast call at most once.
\<close>

theorem processBatch_identifiers:
  assumes "list srv \<lparr>lp_status = ''pending'', lp_limit = effective_limit options\<rparr>
             (request_options options) s = (Inr resp, s1)"
      and "lr_data resp \<noteq> []"
  shows "(\<forall>e s2.
            build srv (map po_id (lr_data resp)) (request_options options) s1 = (Inl e, s2)
            \<longrightarrow> processBatch lib srv secretKey options s =
                  (Inl e, s2,
                   [ListCall \<lparr>lp_status = ''pending'', lp_limit = effective_limit options\<rparr>
                      (request_options options),
                    BuildCall (map po_id (lr_data resp)) (request_options options)]))
         \<and> (\<forall>b s2 e.
            build srv (map po_id (lr_data resp)) (request_options options) s1 = (Inr b, s2)
            \<and> SignTransaction lib (unsigned_transaction b) secretKey = Inl e
            \<longrightarrow> processBatch lib srv secretKey options s =
                  (Inl e, s2,
                   [ListCall \<lparr>lp_status = ''pending'', lp_limit = effective_limit options\<rparr>
                      (request_options options),
                    BuildCall (map po_id (lr_data resp)) (request_options options),
                    SignCall (unsigned_transaction b) secretKey]))
         \<and> (\<forall>b s2 signed e s3.
            build srv (map po_id (lr_data resp)) (request_options options) s1 = (Inr b, s2)
            \<and> SignTransaction lib (unsigned_transaction b) secretKey = Inr signed
            \<and> broadcast srv signed (map po_id (lr_data resp)) (request_options options) s2
                = (Inl e, s3)
            \<longrightarrow> processBatch lib srv secretKey options s =
                  (Inl e, s3,
                   [ListCall \<lparr>lp_status = ''pending'', lp_limit = effective_limit options\<rparr>
                      (request_options options),
                    BuildCall (map po_id (lr_data resp)) (request_options options),
                    SignCall (unsigned_transaction b) secretKey,
                    BroadcastCall signed (map po_id (lr_data resp)) (request_options options)]))
         \<and> (\<forall>b s2 signed r s3.
            build srv (map po_id (lr_data resp)) (request_options options) s1 = (Inr b, s2)
            \<and> SignTransaction lib (unsigned_transaction b) secretKey = Inr signed
            \<and> broadcast srv signed (map po_id (lr_data resp)) (request_options options) s2
                = (Inr r, s3)
            \<longrightarrow> processBatch lib srv secretKey options s =
                  (Inr \<lparr>signature = bc_signature r, status = bc_status r,
                        viewer_url = bc_viewer_url r, payouts = bc_payouts r,
                        total_amount = bb_total_amount b, has_more = lr_has_more resp,
                        failure_message = bc_failure_message r\<rparr>,
                   s3,
                   [ListCall \<lparr>lp_status = ''pending'', lp_limit = effective_limit options\<rparr>
                      (request_options options),
                    BuildCall (map po_id (lr_data resp)) (request_options options),
                    SignCall (unsigned_transaction b) secretKey,
                    BroadcastCall signed (map po_id (lr_data resp)) (request_options options)]))
         \<and> build_args (snd (snd (processBatch lib srv secretKey options s)))
             = [map po_id (lr_data resp)]
         \<and> (broadcast_args (snd (snd (processBatch lib srv secretKey options s))) = []
            \<or> map snd (broadcast_args (snd (snd (processBatch lib srv secretKey options s))))
                = [map po_id (lr_data resp)])"
  using assms
  by (auto simp add: processBatch_def Let_def split: prod.splits sum.splits)

theorem processBatch_identifiers_witness:
  "list canned \<lparr>lp_status = ''pending'', lp_limit = effective_limit None\<rparr>
      (request_options None) two_pending
     = (Inr \<lparr>lr_has_more = False, lr_data = [pending ''po_1'', pending ''po_2'']\<rparr>,
        two_pending\<lparr>queue := []\<rparr>)
   \<and> lr_data \<lparr>lr_has_more = False, lr_data = [pending ''po_1'', pending ''po_2'']\<rparr> \<noteq> []
   \<and> build canned [''po_1'', ''po_2''] None (two_pending\<lparr>queue := []\<rparr>)
     = (Inr \<lparr>unsigned_transaction = ''dHg='', estimated_fee_lamports = 5000, blockhash = ''h'',
             last_valid_block_height = 1, bb_payouts = [],
             bb_total_amount = 200, recipients_count = 2\<rparr>, two_pending\<lparr>queue := []\<rparr>)
   \<and> SignTransaction counting_lib ''dHg='' ''key'' = Inr ''dHg=!''
   \<and> broadcast canned ''dHg=!'' [''po_1'', ''po_2''] None (two_pending\<lparr>queue := []\<rparr>)
     = (Inr \<lparr>bc_signature = ''5sig'', bc_status = ''paid'', bc_viewer_url = ''https://v'',
             bc_payouts = [paid ''po_1'', paid ''po_2''], bc_failure_message = None\<rparr>,
        two_pending\<lparr>queue := [], broadcasts := 1\<rparr>)
   \<and> processBatch counting_lib canned ''key'' None two_pending
     = (Inr \<lparr>signature = ''5sig'', status = ''paid'', viewer_url = ''https://v'',
             payouts = [paid ''po_1'', paid ''po_2''], total_amount = 200, has_more = False,
             failure_message = None\<rparr>,
        two_pending\<lparr>queue := [], broadcasts := 1\<rparr>,
        [ListCall \<lparr>lp_status = ''pending'', lp_limit = Num 10\<rparr> None,
         BuildCall [''po_1'', ''po_2''] None, SignCall ''dHg='' ''key'',
         BroadcastCall ''dHg=!'' [''po_1'', ''po_2''] None])"
proof -
  have l: "list canned \<lparr>lp_status = ''pending'', lp_limit = effective_limit None\<rparr>
             (request_options None) two_pending
           = (Inr \<lparr>lr_has_more = False, lr_data = [pending ''po_1'', pending ''po_2'']\<rparr>,
              two_pending\<lparr>queue := []\<rparr>)"
    by (simp add: canned_def canned_list_def two_pending_def effective_limit_def)
  have d: "lr_data \<lparr>lr_has_more = False, lr_data = [pending ''po_1'', pending ''po_2'']\<rparr> \<noteq> []"
    by simp
  have b: "build canned [''po_1'', ''po_2''] None (two_pending\<lparr>queue := []\<rparr>)
     = (Inr \<lparr>unsigned_transaction = ''dHg='', estimated_fee_lamports = 5000, blockhash = ''h'',
             last_valid_block_height = 1, bb_payouts = [],
             bb_total_amount = 200, recipients_count = 2\<rparr>, two_pending\<lparr>queue := []\<rparr>)"
    by (simp add: canned_def canned_build_def)
  have g: "SignTransaction counting_lib ''dHg='' ''key'' = Inr ''dHg=!''"
    by (simp add: SignTransaction_def counting_lib_def)
  have c: "broadcast canned ''dHg=!'' [''po_1'', ''po_2''] None (two_pending\<lparr>queue := []\<rparr>)
     = (Inr \<lparr>bc_signature = ''5sig'', bc_status = ''paid'', bc_viewer_url = ''https://v'',
             bc_payouts = [paid ''po_1'', paid ''po_2''], bc_failure_message = None\<rparr>,
        two_pending\<lparr>queue := [], broadcasts := 1\<rparr>)"
    by (simp add: canned_def canned_broadcast_def two_pending_def)
  note t = processBatch_identifiers [OF l d, of counting_lib "''key''", THEN conjunct2,
      THEN conjunct2, THEN conjunct2, THEN conjunct1, rule_format]
  have pre: "build canned
        (map po_id (lr_data \<lparr>lr_has_more = False, lr_data = [pending ''po_1'', pending ''po_2'']\<rparr>))
        (request_options None) (two_pending\<lparr>queue := []\<rparr>)
      = (Inr \<lparr>unsigned_transaction = ''dHg='', estimated_fee_lamports = 5000, blockhash = ''h'',
             last_valid_block_height = 1, bb_payouts = [],
             bb_total_amount = 200, recipients_count = 2\<rparr>, two_pending\<lparr>queue := []\<rparr>)
    \<and> SignTransaction counting_lib
        (unsigned_transaction \<lparr>unsigned_transaction = ''dHg='', estimated_fee_lamports = 5000,
             blockhash = ''h'', last_valid_block_height = 1, bb_payouts = [],
             bb_total_amount = 200, recipients_count = 2\<rparr>) ''key'' = Inr ''dHg=!''
    \<and> broadcast canned ''dHg=!''
        (map po_id (lr_data \<lparr>lr_has_more = False, lr_data = [pending ''po_1'', pending ''po_2'']\<rparr>))
        (request_options None) (two_pending\<lparr>queue := []\<rparr>)
      = (Inr \<lparr>bc_signature = ''5sig'', bc_status = ''paid'', bc_viewer_url = ''https://v'',
             bc_payouts = [paid ''po_1'', paid ''po_2''], bc_failure_message = None\<rparr>,
        two_pending\<lparr>queue := [], broadcasts := 1\<rparr>)"
    using b g c by (simp add: pending_def request_options_def)
  from t [OF pre] have r: "processBatch counting_lib canned ''key'' None two_pending
     = (Inr \<lparr>signature = ''5sig'', status = ''paid'', viewer_url = ''https://v'',
             payouts = [paid ''po_1'', paid ''po_2''], total_amount = 200, has_more = False,
             failure_message = None\<rparr>,
        two_pending\<lparr>queue := [], broadcasts := 1\<rparr>,
        [ListCall \<lparr>lp_status = ''pending'', lp_limit = Num 10\<rparr> None,
         BuildCall [''po_1'', ''po_2''] None, SignCall ''dHg='' ''key'',
         BroadcastCall ''dHg=!'' [''po_1'', ''po_2''] None])"
    by (simp add: pending_def effective_limit_def request_options_def)
  show ?thesis using l d b g c r by blast
qed




section \<open>Properties of the settlement loop\<close>


lemma processAll_loop_stop:
  "processAll_loop lib srv k ropts s res False tr = Some (Returned res, s, tr)"
  by (subst processAll_loop.simps) simp

lemma processAll_loop_step:
  "processBatch lib srv k (Some \<lparr>limit = None, requestOptions = ropts\<rparr>) s = (Inr r, s1, tr1)
   \<Longrightarrow> processAll_loop lib srv k ropts s res True tr =
       processAll_loop lib srv k ropts s1
         (if 0 < length (payouts r) then res @ [r] else res) (has_more r) (tr @ tr1)"
  by (subst processAll_loop.simps) simp

lemma processAll_loop_throw:
  "processBatch lib srv k (Some \<lparr>limit = None, requestOptions = ropts\<rparr>) s = (Inl e, s1, tr1)
   \<Longrightarrow> processAll_loop lib srv k ropts s res True tr = Some (Thrown e res, s1, tr @ tr1)"
  by (subst processAll_loop.simps) simp

lemma loop_rounds:
  "run_rounds lib srv k ropts (Suc n) s = Some (rs, s', tr)
   \<Longrightarrow> \<forall>i<n. has_more (rs ! i) \<Longrightarrow> \<not> has_more (rs ! n)
   \<Longrightarrow> processAll_loop lib srv k ropts s acc True tr0 =
        Some (Returned (acc @ filter (\<lambda>r. 0 < length (payouts r)) rs), s', tr0 @ tr)"
proof (induction n arbitrary: s rs tr acc tr0)
  case 0
  from "0.prems"(1) obtain r where
    pb: "processBatch lib srv k (Some \<lparr>limit = None, requestOptions = ropts\<rparr>) s = (Inr r, s', tr)"
    and rs: "rs = [r]"
    by (auto split: prod.splits sum.splits)
  from "0.prems"(3) rs have nm: "\<not> has_more r" by simp
  show ?case
    by (simp add: processAll_loop_step [OF pb] nm processAll_loop_stop rs)
next
  case (Suc n)
  from Suc.prems(1) obtain r s1 tr1 rs' tr2 where
    pb: "processBatch lib srv k (Some \<lparr>limit = None, requestOptions = ropts\<rparr>) s = (Inr r, s1, tr1)"
    and rest: "run_rounds lib srv k ropts (Suc n) s1 = Some (rs', s', tr2)"
    and rs: "rs = r # rs'" and tr: "tr = tr1 @ tr2"
    by (auto simp del: run_rounds.simps simp add: run_rounds.simps [of _ _ _ _ "Suc n"]
          split: prod.splits sum.splits option.splits)
  from Suc.prems(2) rs have hm: "has_more r" by auto
  from Suc.prems(2) rs have a: "\<forall>i<n. has_more (rs' ! i)" by auto
  from Suc.prems(3) rs have b: "\<not> has_more (rs' ! n)" by simp
  show ?case
    by (simp add: processAll_loop_step [OF pb] hm Suc.IH [OF rest a b] rs tr)
qed

lemma list_args_append: "list_args (a @ b) = list_args a @ list_args b"
  by (induction a rule: list_args.induct) simp_all

lemma processBatch_one_list:
  "length (list_args (snd (snd (processBatch lib srv k opts s)))) = 1"
  by (auto simp add: processBatch_def Let_def split: prod.splits sum.splits)

lemma run_rounds_length:
  "run_rounds lib srv k ropts n s = Some (rs, s', tr)
   \<Longrightarrow> length rs = n \<and> length (list_args tr) = n"
proof (induction n arbitrary: s rs tr)
  case 0
  then show ?case by simp
next
  case (Suc n)
  from Suc.prems obtain r s1 tr1 rs' tr2 where
    pb: "processBatch lib srv k (Some \<lparr>limit = None, requestOptions = ropts\<rparr>) s = (Inr r, s1, tr1)"
    and rest: "run_rounds lib srv k ropts n s1 = Some (rs', s', tr2)"
    and rs: "rs = r # rs'" and tr: "tr = tr1 @ tr2"
    by (auto split: prod.splits sum.splits option.splits)
  from processBatch_one_list [of lib srv k "Some \<lparr>limit = None, requestOptions = ropts\<rparr>" s] pb
  have "length (list_args tr1) = 1" by simp
  with Suc.IH [OF rest] rs tr show ?case by (simp add: list_args_append)
qed

text \<open>
  C4. Let the first \<open>n + 1\<close> successive invocations of \<open>processBatch\<close> succeed with round
  results \<open>rs\<close>, the first \<open>n\<close> with \<open>has_more\<close> true and the last with \<open>has_more\<close> false.
  Then \<open>processAll\<close> returns, having made exactly these \<open>n + 1\<close> rounds (the state and the
  calls are theirs, and it stops after the first round whose \<open>has_more\<close> is false), and its
  output is the rounds whose payout list is non-empty, and only those, in round order.
\<close>

theorem processAll_rounds:
  assumes "run_rounds lib srv secretKey options (Suc n) s = Some (rs, s', tr)"
      and "\<forall>i<n. has_more (rs ! i)"
      and "\<not> has_more (rs ! n)"
  shows "processAll lib srv secretKey options s =
           Some (Returned (filter (\<lambda>r. 0 < length (payouts r)) rs), s', tr)
         \<and> rounds_made (processAll lib srv secretKey options s) = Some (Suc n)"
  using loop_rounds [OF assms, of "[]" "[]"] run_rounds_length [OF assms(1)]
  by (simp add: processAll_def)

theorem processAll_rounds_witness:
  "map_option fst (run_rounds counting_lib canned ''key'' None (Suc (Suc 0)) one_then_nothing)
     = Some [settled [''po_1'', ''po_2''] True, zero_result]
   \<and> has_more (settled [''po_1'', ''po_2''] True) \<and> \<not> has_more zero_result
   \<and> map_option fst (processAll counting_lib canned ''key'' None one_then_nothing)
       = Some (Returned [settled [''po_1'', ''po_2''] True])
   \<and> rounds_made (processAll counting_lib canned ''key'' None one_then_nothing) = Some 2"
proof -
  obtain s' tr where
    r: "run_rounds counting_lib canned ''key'' None (Suc (Suc 0)) one_then_nothing
          = Some ([settled [''po_1'', ''po_2''] True, zero_result], s', tr)"
    by (simp add: canned_simps one_then_nothing_def settled_def)
  have a: "\<forall>i<Suc 0. has_more ([settled [''po_1'', ''po_2''] True, zero_result] ! i)"
    by (simp add: settled_def)
  have b: "\<not> has_more ([settled [''po_1'', ''po_2''] True, zero_result] ! Suc 0)"
    by (simp add: zero_result_def)
  note t = processAll_rounds [OF r a b]
  have x: "processAll counting_lib canned ''key'' None one_then_nothing
             = Some (Returned [settled [''po_1'', ''po_2''] True], s', tr)"
    using t [THEN conjunct1] by (simp add: settled_def zero_result_def)
  have y: "rounds_made (processAll counting_lib canned ''key'' None one_then_nothing)
             = Some (Suc (Suc 0))"
    using t [THEN conjunct2] .
  have c1: "map_option fst (run_rounds counting_lib canned ''key'' None (Suc (Suc 0)) one_then_nothing)
     = Some [settled [''po_1'', ''po_2''] True, zero_result]"
    by (simp only: r option.map fst_conv)
  have c2: "has_more (settled [''po_1'', ''po_2''] True)" by (simp add: settled_def)
  have c3: "\<not> has_more zero_result" by (simp add: zero_result_def)
  have c4: "map_option fst (processAll counting_lib canned ''key'' None one_then_nothing)
       = Some (Returned [settled [''po_1'', ''po_2''] True])"
    by (simp only: x option.map fst_conv)
  have c5: "rounds_made (processAll counting_lib canned ''key'' None one_then_nothing) = Some 2"
    using y by (simp add: numeral_2_eq_2)
  show ?thesis using c1 c2 c3 c4 c5 by blast
qed

text \<open>
  C5, as stated, fails: on a server whose three successive \<open>list\<close> responses carry
  \<open>has_more\<close> = true, true, false with one pending payout each, \<open>processAll\<close> makes three
  rounds and returns three round results, not two.
\<close>

theorem processAll_true_true_false_counterexample:
  "map_option fst (run_rounds counting_lib canned ''key'' None 3 three_rounds)
     = Some [settled [''po_1''] True, settled [''po_2''] True, settled [''po_3''] False]
   \<and> map payouts [settled [''po_1''] True, settled [''po_2''] True, settled [''po_3''] False]
     = [[paid ''po_1''], [paid ''po_2''], [paid ''po_3'']]
   \<and> rounds_made (processAll counting_lib canned ''key'' None three_rounds) = Some 3
   \<and> returned_count (processAll counting_lib canned ''key'' None three_rounds) = Some 3
   \<and> returned_count (processAll counting_lib canned ''key'' None three_rounds) \<noteq> Some 2"
  by (simp add: processAll_def processAll_loop.simps canned_simps three_rounds_def settled_def
        numeral_3_eq_3)

text \<open>
  C5, amended. When three successive rounds succeed with \<open>has_more\<close> = true, true, false and
  each has a non-empty payout list, \<open>processAll\<close> makes exactly three rounds and returns
  exactly 3 round results: the three rounds, in order.
\<close>

theorem processAll_true_true_false:
  assumes "run_rounds lib srv secretKey options 3 s = Some (rs, s', tr)"
      and "map has_more rs = [True, True, False]"
      and "\<forall>r \<in> set rs. payouts r \<noteq> []"
  shows "processAll lib srv secretKey options s = Some (Returned rs, s', tr)
         \<and> rounds_made (processAll lib srv secretKey options s) = Some 3
         \<and> returned_count (processAll lib srv secretKey options s) = Some 3"
proof -
  have r: "run_rounds lib srv secretKey options (Suc 2) s = Some (rs, s', tr)"
    using assms(1) by (simp add: numeral_3_eq_3 numeral_2_eq_2)
  from assms(2) obtain a b c where rs: "rs = [a, b, c]" "has_more a" "has_more b" "\<not> has_more c"
    by (auto simp add: map_eq_Cons_conv)
  have h: "\<forall>i<2. has_more (rs ! i)"
    using rs by (auto simp add: less_Suc_eq numeral_2_eq_2)
  have l: "\<not> has_more (rs ! 2)" using rs by simp
  have f: "filter (\<lambda>r. 0 < length (payouts r)) rs = rs"
    using assms(3) by (simp add: filter_id_conv)
  from loop_rounds [OF r h l, of "[]" "[]"] run_rounds_length [OF assms(1)] f rs(1)
  show ?thesis by (simp add: processAll_def)
qed

theorem processAll_true_true_false_witness:
  "map_option fst (run_rounds counting_lib canned ''key'' None 3 three_rounds)
     = Some [settled [''po_1''] True, settled [''po_2''] True, settled [''po_3''] False]
   \<and> map has_more [settled [''po_1''] True, settled [''po_2''] True, settled [''po_3''] False]
     = [True, True, False]
   \<and> list_all (\<lambda>r. payouts r \<noteq> [])
       [settled [''po_1''] True, settled [''po_2''] True, settled [''po_3''] False]
   \<and> map_option fst (processAll counting_lib canned ''key'' None three_rounds)
     = Some (Returned [settled [''po_1''] True, settled [''po_2''] True, settled [''po_3''] False])
   \<and> returned_count (processAll counting_lib canned ''key'' None three_rounds) = Some 3"
proof -
  obtain s' tr where
    r: "run_rounds counting_lib canned ''key'' None 3 three_rounds
          = Some ([settled [''po_1''] True, settled [''po_2''] True, settled [''po_3''] False], s', tr)"
    by (simp add: canned_simps three_rounds_def settled_def numeral_3_eq_3)
  have a: "map has_more [settled [''po_1''] True, settled [''po_2''] True, settled [''po_3''] False]
             = [True, True, False]"
    by (simp add: settled_def)
  have b: "\<forall>r \<in> set [settled [''po_1''] True, settled [''po_2''] True, settled [''po_3''] False].
             payouts r \<noteq> []"
    by (simp add: settled_def)
  show ?thesis
    using processAll_true_true_false [OF r a b] r
    by (simp add: settled_def)
qed

text \<open>
  C6. Let the first round succeed with a non-empty payout list and \<open>has_more\<close> true, and let
  the second round list and build a non-empty batch, sign it, and fail in its broadcast call
  with the error \<open>e\<close>. Then \<open>processAll\<close> throws \<open>e\<close> itself; the failed broadcast is the last
  call made; the rounds accumulated at the throw are exactly the first round; and the server
  is left in the state the failed broadcast produced, with no call that undoes the first round.
\<close>

theorem processAll_second_broadcast_fails:
  assumes "processBatch lib srv secretKey (Some \<lparr>limit = None, requestOptions = options\<rparr>) s
             = (Inr r1, s1, tr1)"
      and "payouts r1 \<noteq> []"
      and "has_more r1"
      and "list srv \<lparr>lp_status = ''pending'', lp_limit = Num 10\<rparr> options s1 = (Inr resp, s2)"
      and "lr_data resp \<noteq> []"
      and "build srv (map po_id (lr_data resp)) options s2 = (Inr b, s3)"
      and "SignTransaction lib (unsigned_transaction b) secretKey = Inr signed"
      and "broadcast srv signed (map po_id (lr_data resp)) options s3 = (Inl e, s4)"
  shows "processAll lib srv secretKey options s =
           Some (Thrown e [r1], s4,
                 tr1 @ [ListCall \<lparr>lp_status = ''pending'', lp_limit = Num 10\<rparr> options,
                        BuildCall (map po_id (lr_data resp)) options,
                        SignCall (unsigned_transaction b) secretKey,
                        BroadcastCall signed (map po_id (lr_data resp)) options])"
proof -
  have second: "processBatch lib srv secretKey (Some \<lparr>limit = None, requestOptions = options\<rparr>) s1
          = (Inl e, s4, [ListCall \<lparr>lp_status = ''pending'', lp_limit = Num 10\<rparr> options,
                        BuildCall (map po_id (lr_data resp)) options,
                        SignCall (unsigned_transaction b) secretKey,
                        BroadcastCall signed (map po_id (lr_data resp)) options])"
    using assms(4-8)
    by (simp add: processBatch_def Let_def effective_limit_def request_options_def)
  show ?thesis
    using assms(2,3)
    by (simp add: processAll_def processAll_loop_step [OF assms(1)]
          processAll_loop_throw [OF second])
qed

theorem processAll_second_broadcast_fails_witness:
  "processAll counting_lib canned ''key'' None second_broadcast_fails =
     Some (Thrown broadcast_failure [settled [''po_1''] True],
           \<lparr>queue = [\<lparr>lr_has_more = False, lr_data = [pending ''po_3'']\<rparr>],
            broadcasts = 2, fail_at = Some 1\<rparr>,
           [ListCall \<lparr>lp_status = ''pending'', lp_limit = Num 10\<rparr> None,
            BuildCall [''po_1''] None, SignCall ''dHg='' ''key'',
            BroadcastCall ''dHg=!'' [''po_1''] None,
            ListCall \<lparr>lp_status = ''pending'', lp_limit = Num 10\<rparr> None,
            BuildCall [''po_2''] None, SignCall ''dHg='' ''key'',
            BroadcastCall ''dHg=!'' [''po_2''] None])"
proof -
  have r1: "processBatch counting_lib canned ''key'' (Some \<lparr>limit = None, requestOptions = None\<rparr>)
              second_broadcast_fails
            = (Inr (settled [''po_1''] True),
               \<lparr>queue = [\<lparr>lr_has_more = True, lr_data = [pending ''po_2'']\<rparr>,
                         \<lparr>lr_has_more = False, lr_data = [pending ''po_3'']\<rparr>],
                broadcasts = 1, fail_at = Some 1\<rparr>,
               [ListCall \<lparr>lp_status = ''pending'', lp_limit = Num 10\<rparr> None,
                BuildCall [''po_1''] None, SignCall ''dHg='' ''key'',
                BroadcastCall ''dHg=!'' [''po_1''] None])"
    by (simp add: canned_simps second_broadcast_fails_def settled_def)
  have p: "payouts (settled [''po_1''] True) \<noteq> []" by (simp add: settled_def)
  have h: "has_more (settled [''po_1''] True)" by (simp add: settled_def)
  have l: "list canned \<lparr>lp_status = ''pending'', lp_limit = Num 10\<rparr> None
             \<lparr>queue = [\<lparr>lr_has_more = True, lr_data = [pending ''po_2'']\<rparr>,
                         \<lparr>lr_has_more = False, lr_data = [pending ''po_3'']\<rparr>],
                broadcasts = 1, fail_at = Some 1\<rparr>
           = (Inr \<lparr>lr_has_more = True, lr_data = [pending ''po_2'']\<rparr>,
              \<lparr>queue = [\<lparr>lr_has_more = False, lr_data = [pending ''po_3'']\<rparr>],
                broadcasts = 1, fail_at = Some 1\<rparr>)"
    by (simp add: canned_def canned_list_def)
  have d: "lr_data \<lparr>lr_has_more = True, lr_data = [pending ''po_2'']\<rparr> \<noteq> []" by simp
  have b: "build canned (map po_id (lr_data \<lparr>lr_has_more = True, lr_data = [pending ''po_2'']\<rparr>)) None
             \<lparr>queue = [\<lparr>lr_has_more = False, lr_data = [pending ''po_3'']\<rparr>],
                broadcasts = 1, fail_at = Some 1\<rparr>
           = (Inr \<lparr>unsigned_transaction = ''dHg='', estimated_fee_lamports = 5000, blockhash = ''h'',
                   last_valid_block_height = 1, bb_payouts = [],
                   bb_total_amount = 100, recipients_count = 1\<rparr>,
              \<lparr>queue = [\<lparr>lr_has_more = False, lr_data = [pending ''po_3'']\<rparr>],
                broadcasts = 1, fail_at = Some 1\<rparr>)"
    by (simp add: canned_def canned_build_def)
  have g: "SignTransaction counting_lib
             (unsigned_transaction \<lparr>unsigned_transaction = ''dHg='', estimated_fee_lamports = 5000,
                 blockhash = ''h'', last_valid_block_height = 1, bb_payouts = [],
                 bb_total_amount = 100, recipients_count = 1\<rparr>) ''key'' = Inr ''dHg=!''"
    by (simp add: SignTransaction_def counting_lib_def)
  have c: "broadcast canned ''dHg=!''
             (map po_id (lr_data \<lparr>lr_has_more = True, lr_data = [pending ''po_2'']\<rparr>)) None
             \<lparr>queue = [\<lparr>lr_has_more = False, lr_data = [pending ''po_3'']\<rparr>],
                broadcasts = 1, fail_at = Some 1\<rparr>
           = (Inl broadcast_failure,
              \<lparr>queue = [\<lparr>lr_has_more = False, lr_data = [pending ''po_3'']\<rparr>],
                broadcasts = 2, fail_at = Some 1\<rparr>)"
    by (simp add: canned_def canned_broadcast_def)
  show ?thesis
    using processAll_second_broadcast_fails [OF r1 p h l d b g c]
    by (simp add: pending_def)
qed

section \<open>Properties of the webhook verifier\<close>

lemmas webhook_simps =
  Verify_def ParseHeader_def header_item_def parseInt10_def is_ws_def is_digit_def
  digits_value_def timingSafeEqual_def concat_mac_def Let_def nat_to_dec.simps digit_char_def
  timestamp_of_def expectedSignature_of_def

lemma pair_values_Cons:
  "pair_values k (item # items) = pair_values k [item] @ pair_values k items"
  by (simp add: pair_values_def)

lemma header_item_key:
  assumes "acc k \<noteq> Some (Str [])" and "acc k \<noteq> Some (Arr [])"
  shows "signatures_of (header_item acc item k) = signatures_of (acc k) @ pair_values k [item]
         \<and> header_item acc item k \<noteq> Some (Str [])
         \<and> header_item acc item k \<noteq> Some (Arr [])"
  using assms
  by (cases "acc k")
     (auto simp add: header_item_def pair_values_def split: list.splits hval.splits option.splits)

lemma foldl_header_item:
  "acc k \<noteq> Some (Str []) \<Longrightarrow> acc k \<noteq> Some (Arr [])
   \<Longrightarrow> signatures_of (foldl header_item acc items k) = signatures_of (acc k) @ pair_values k items
       \<and> foldl header_item acc items k \<noteq> Some (Str [])
       \<and> foldl header_item acc items k \<noteq> Some (Arr [])"
proof (induction items arbitrary: acc)
  case Nil
  then show ?case by (simp add: pair_values_def)
next
  case (Cons item items)
  from header_item_key [of acc k item, OF Cons.prems]
  have s: "signatures_of (header_item acc item k) = signatures_of (acc k) @ pair_values k [item]"
    and a: "header_item acc item k \<noteq> Some (Str [])"
    and b: "header_item acc item k \<noteq> Some (Arr [])"
    by simp_all
  from Cons.IH [of "header_item acc item", OF a b] s show ?case
    by (simp add: pair_values_Cons [of k item items])
qed

lemma ParseHeader_values:
  "signatures_of (ParseHeader header k) = pair_values k (js_split CHR '','' header)"
  and ParseHeader_not_empty_Str: "ParseHeader header k \<noteq> Some (Str [])"
  and ParseHeader_not_empty_Arr: "ParseHeader header k \<noteq> Some (Arr [])"
  using foldl_header_item [of Map.empty k "js_split CHR '','' header"]
  by (simp_all add: ParseHeader_def)

lemma truthy_signatures:
  "x \<noteq> Some (Str []) \<Longrightarrow> x \<noteq> Some (Arr []) \<Longrightarrow> truthy x = (signatures_of x \<noteq> [])"
  by (cases x rule: truthy.cases) simp_all

lemma truthy_ParseHeader:
  "truthy (ParseHeader header k) = (pair_values k (js_split CHR '','' header) \<noteq> [])"
  using truthy_signatures [OF ParseHeader_not_empty_Str ParseHeader_not_empty_Arr, of header k]
  by (simp add: ParseHeader_values)

lemma timestampStr_hd:
  "x \<noteq> Some (Arr []) \<Longrightarrow> truthy x \<Longrightarrow> timestampStr_of x = hd (signatures_of x)"
  by (cases x rule: timestampStr_of.cases) auto

lemma timestampStr_first:
  "truthy (ParseHeader header k)
   \<Longrightarrow> timestampStr_of (ParseHeader header k) = hd (pair_values k (js_split CHR '','' header))"
  using timestampStr_hd [OF ParseHeader_not_empty_Arr, of header k]
  by (simp add: ParseHeader_values)

lemma error_distinct:
  "missing_error \<noteq> tolerance_error" "tolerance_error \<noteq> mismatch_error"
  "missing_error \<noteq> mismatch_error"
  by (simp_all add: missing_error_def tolerance_error_def mismatch_error_def)

lemma Verify_unfold:
  "Verify hmac date_now payload header secret tolerance =
     (if \<not> truthy (ParseHeader header ''t'') \<or> \<not> truthy (ParseHeader header ''v1'')
      then Inl missing_error
      else if 0 < tolerance
              \<and> js_gt (js_sub (Num (date_now div 1000)) (timestamp_of header)) (Num tolerance)
      then Inl tolerance_error
      else if expectedSignature_of hmac secret header payload
                \<in> set (signatures_of (ParseHeader header ''v1''))
      then Inr () else Inl mismatch_error)"
  by (auto simp add: Verify_def Let_def timestamp_of_def expectedSignature_of_def
        timingSafeEqual_def list_ex_iff)

lemma to_double_small: "n \<le> 2 ^ 53 \<Longrightarrow> to_double n = Some n"
  by (simp add: to_double_def)

lemma number_of_int_small: "\<bar>x\<bar> \<le> 2 ^ 53 \<Longrightarrow> number_of_int x = Num x"
proof -
  assume a: "\<bar>x\<bar> \<le> 2 ^ 53"
  then have "nat \<bar>x\<bar> \<le> 2 ^ 53" by (simp add: nat_le_iff)
  then have "to_double (nat \<bar>x\<bar>) = Some (nat \<bar>x\<bar>)" by (rule to_double_small)
  then show ?thesis by (simp add: number_of_int_def)
qed

lemma nat_toString_small: "a \<le> 2 ^ 53 \<Longrightarrow> nat_toString a = nat_to_dec a"
proof -
  assume a: "a \<le> 2 ^ 53"
  have "(2::nat) ^ 53 < 10 ^ 21" by simp
  with a have "a < 10 ^ 21" by linarith
  with a show ?thesis by (simp add: nat_toString_def)
qed

lemma js_toString_small: "\<bar>n\<bar> \<le> 2 ^ 53 \<Longrightarrow> js_toString (Num n) = decimal n"
proof -
  assume a: "\<bar>n\<bar> \<le> 2 ^ 53"
  then have "nat (- n) \<le> 2 ^ 53" and "nat n \<le> 2 ^ 53" by (simp_all add: nat_le_iff)
  then show ?thesis by (simp add: decimal_def nat_toString_small)
qed

lemma digit_char_props:
  assumes "d < 10"
  shows "is_digit (digit_char d)" and "of_char (digit_char d) - 48 = d"
proof -
  from assms have "d = 0 \<or> d = 1 \<or> d = 2 \<or> d = 3 \<or> d = 4 \<or> d = 5 \<or> d = 6 \<or> d = 7
      \<or> d = 8 \<or> d = 9" by arith
  then show "is_digit (digit_char d)" and "of_char (digit_char d) - 48 = d"
    by (auto simp add: digit_char_def is_digit_def)
qed

lemma digit_not_sign:
  "is_digit c \<Longrightarrow> \<not> is_ws c \<and> c \<noteq> CHR ''-'' \<and> c \<noteq> CHR ''+''"
  by (auto simp add: is_digit_def is_ws_def)

lemma digits_value_snoc:
  "digits_value (ds @ [c]) = 10 * digits_value ds + (of_char c - 48)"
  by (simp add: digits_value_def)

lemma nat_to_dec_digits:
  "list_all is_digit (nat_to_dec n) \<and> nat_to_dec n \<noteq> [] \<and> digits_value (nat_to_dec n) = n"
proof (induction n rule: nat_to_dec.induct)
  case (1 n)
  show ?case
  proof (cases "n < 10")
    case True
    then show ?thesis
      by (simp add: nat_to_dec.simps [of n] digit_char_props digits_value_def)
  next
    case False
    have m: "n mod 10 < 10" by simp
    from False "1.IH" show ?thesis
      by (simp add: nat_to_dec.simps [of n] digit_char_props [OF m] digits_value_snoc)
  qed
qed

lemma parseInt10_digits:
  assumes "list_all is_digit ds" and "ds \<noteq> []"
  shows "parseInt10 ds = number_of_int (int (digits_value ds))"
    and "parseInt10 (CHR ''-'' # ds) = number_of_int (- int (digits_value ds))"
proof -
  from assms obtain c cs where ds: "ds = c # cs" and c: "is_digit c"
    by (cases ds) auto
  from assms(1) have t: "takeWhile is_digit (c # cs) = c # cs"
    unfolding ds by (simp add: takeWhile_eq_all_conv list_all_iff)
  from digit_not_sign [OF c] have n: "\<not> is_ws c" "c \<noteq> CHR ''-''" "c \<noteq> CHR ''+''"
    by simp_all
  have w: "\<not> is_ws CHR ''-''" by (simp add: is_ws_def)
  show "parseInt10 ds = number_of_int (int (digits_value ds))"
    unfolding ds parseInt10_def Let_def using n by (simp add: t del: takeWhile.simps)
  show "parseInt10 (CHR ''-'' # ds) = number_of_int (- int (digits_value ds))"
    unfolding ds parseInt10_def Let_def using w by (simp add: t del: takeWhile.simps)
qed

lemma parseInt10_decimal: "\<bar>n\<bar> \<le> 2 ^ 53 \<Longrightarrow> parseInt10 (decimal n) = Num n"
proof -
  assume a: "\<bar>n\<bar> \<le> 2 ^ 53"
  note d = nat_to_dec_digits
  show ?thesis
  proof (cases "n < 0")
    case True
    from d [of "nat (- n)"] have "parseInt10 (CHR ''-'' # nat_to_dec (nat (- n)))
        = number_of_int (- int (digits_value (nat_to_dec (nat (- n)))))"
      by (intro parseInt10_digits) simp_all
    with True d [of "nat (- n)"] a show ?thesis
      by (simp add: decimal_def number_of_int_small)
  next
    case False
    from d [of "nat n"] have "parseInt10 (nat_to_dec (nat n))
        = number_of_int (int (digits_value (nat_to_dec (nat n))))"
      by (intro parseInt10_digits) simp_all
    with False d [of "nat n"] a show ?thesis
      by (simp add: decimal_def number_of_int_small)
  qed
qed

lemma truthy_from_member:
  "x \<in> set (signatures_of (ParseHeader header k)) \<Longrightarrow> truthy (ParseHeader header k)"
  by (auto simp add: truthy_ParseHeader ParseHeader_values)

lemmas header_simps =
  ParseHeader_def header_item_def timestamp_of_def parseInt10_def is_ws_def is_digit_def
  digits_value_def nat_to_dec.simps digit_char_def concat_mac_def number_of_int_def
  to_double_def nat_toString_def decimal_def bitlen.simps

text \<open>
  C7, as stated, fails for a tolerance of \<open>2^53\<close> seconds: with \<open>now = 1000\<close>, a header whose
  timestamp is \<open>now - tolerance - 1\<close> is not rejected with the timestamp-tolerance error. The
  difference \<open>now - t = 2^53 + 1\<close> is rounded to the double \<open>2^53\<close>, which is not above the
  tolerance, and the header, carrying a matching signature, verifies.
\<close>

theorem Verify_tolerance_boundary_counterexample:
  "(0::int) < 9007199254740992
   \<and> truthy (ParseHeader ''t=-9007199254739993,v1=k-9007199254739993.{}'' ''t'')
   \<and> truthy (ParseHeader ''t=-9007199254739993,v1=k-9007199254739993.{}'' ''v1'')
   \<and> timestamp_of ''t=-9007199254739993,v1=k-9007199254739993.{}''
       = Num (1000999 div 1000 - 9007199254740992 - 1)
   \<and> Verify concat_mac 1000999 ''{}'' ''t=-9007199254739993,v1=k-9007199254739993.{}'' ''k''
        9007199254740992 = Inr ()
   \<and> Verify concat_mac 1000999 ''{}'' ''t=-9007199254739993,v1=k-9007199254739993.{}'' ''k''
        9007199254740992 \<noteq> Inl tolerance_error"
proof -
  have p1: "truthy (ParseHeader ''t=-9007199254739993,v1=k-9007199254739993.{}'' ''t'')"
    by (simp add: header_simps)
  have p2: "truthy (ParseHeader ''t=-9007199254739993,v1=k-9007199254739993.{}'' ''v1'')"
    by (simp add: header_simps)
  have p3: "timestamp_of ''t=-9007199254739993,v1=k-9007199254739993.{}''
              = Num (- 9007199254739993)"
    by (simp add: header_simps)
  have p4: "signatures_of (ParseHeader ''t=-9007199254739993,v1=k-9007199254739993.{}'' ''v1'')
              = [''k-9007199254739993.{}'']"
    by (simp add: header_simps)
  have p5: "js_sub (Num 1000) (Num (- 9007199254739993)) = Num 9007199254740992"
    by (simp add: header_simps)
  have p6: "js_toString (Num (- 9007199254739993)) = ''-9007199254739993''"
    by (simp add: header_simps)
  have r: "Verify concat_mac 1000999 ''{}'' ''t=-9007199254739993,v1=k-9007199254739993.{}'' ''k''
        9007199254740992 = Inr ()"
    by (simp add: Verify_unfold p1 p2 p3 p4 p5 p6 expectedSignature_of_def concat_mac_def
          del: js_sub.simps js_toString.simps)
  have q: "Num (1000999 div 1000 - 9007199254740992 - 1) = Num (- 9007199254739993)" by simp
  show ?thesis using p1 p2 p3 r q by simp
qed

text \<open>
  C7, amended. With \<open>now = floor(Date.now() / 1000)\<close>, for every payload and secret: for a
  tolerance above 0 and at most \<open>2^53\<close>, a header whose timestamp parses to \<open>now - tolerance\<close>
  and which carries a \<open>v1\<close> candidate equal to the HMAC of \<open>"{t}.{payload}"\<close> under the secret
  verifies; for a tolerance above 0 and below \<open>2^53\<close>, a header whose timestamp parses to
  \<open>now - tolerance - 1\<close> is rejected with the timestamp-tolerance error whatever its \<open>v1\<close>
  candidates are (it carries at least one, or \<open>Verify\<close> would have thrown before reading the
  timestamp); and with tolerance 0 no header is rejected with the timestamp-tolerance error
  and the result does not depend on the clock.
\<close>

theorem Verify_tolerance_boundary:
  "(0 < tolerance \<and> tolerance \<le> 2 ^ 53 \<and> truthy (ParseHeader h1 ''t'')
      \<and> timestamp_of h1 = Num (date_now div 1000 - tolerance)
      \<and> hmac secret (js_toString (Num (date_now div 1000 - tolerance)) @ ''.'' @ payload)
           \<in> set (signatures_of (ParseHeader h1 ''v1''))
      \<longrightarrow> Verify hmac date_now payload h1 secret tolerance = Inr ())
   \<and> (0 < tolerance \<and> tolerance < 2 ^ 53
      \<and> truthy (ParseHeader h2 ''t'') \<and> truthy (ParseHeader h2 ''v1'')
      \<and> timestamp_of h2 = Num (date_now div 1000 - tolerance - 1)
      \<longrightarrow> Verify hmac date_now payload h2 secret tolerance = Inl tolerance_error)
   \<and> Verify hmac date_now payload h3 secret 0 \<noteq> Inl tolerance_error
   \<and> Verify hmac date_now payload h3 secret 0 = Verify hmac other_now payload h3 secret 0"
proof (intro conjI impI)
  assume a: "0 < tolerance \<and> tolerance \<le> 2 ^ 53 \<and> truthy (ParseHeader h1 ''t'')
      \<and> timestamp_of h1 = Num (date_now div 1000 - tolerance)
      \<and> hmac secret (js_toString (Num (date_now div 1000 - tolerance)) @ ''.'' @ payload)
           \<in> set (signatures_of (ParseHeader h1 ''v1''))"
  then have v: "truthy (ParseHeader h1 ''v1'')" by (blast intro: truthy_from_member)
  from a have "\<bar>tolerance\<bar> \<le> 2 ^ 53" by simp
  then have "number_of_int tolerance = Num tolerance" by (rule number_of_int_small)
  then have "js_sub (Num (date_now div 1000)) (Num (date_now div 1000 - tolerance)) = Num tolerance"
    by simp
  with a v show "Verify hmac date_now payload h1 secret tolerance = Inr ()"
    by (simp add: Verify_unfold expectedSignature_of_def)
next
  assume a: "0 < tolerance \<and> tolerance < 2 ^ 53
      \<and> truthy (ParseHeader h2 ''t'') \<and> truthy (ParseHeader h2 ''v1'')
      \<and> timestamp_of h2 = Num (date_now div 1000 - tolerance - 1)"
  then have "\<bar>tolerance + 1\<bar> \<le> 2 ^ 53" by simp
  then have "number_of_int (tolerance + 1) = Num (tolerance + 1)" by (rule number_of_int_small)
  moreover have "date_now div 1000 - (date_now div 1000 - tolerance - 1) = tolerance + 1"
    by simp
  ultimately have "js_sub (Num (date_now div 1000)) (Num (date_now div 1000 - tolerance - 1))
      = Num (tolerance + 1)"
    by simp
  with a show "Verify hmac date_now payload h2 secret tolerance = Inl tolerance_error"
    by (simp add: Verify_unfold)
next
  show "Verify hmac date_now payload h3 secret 0 \<noteq> Inl tolerance_error"
    using error_distinct by (auto simp add: Verify_unfold)
next
  show "Verify hmac date_now payload h3 secret 0 = Verify hmac other_now payload h3 secret 0"
    by (simp add: Verify_unfold)
qed

theorem Verify_tolerance_boundary_witness:
  "(0::int) < 300 \<and> (300::int) < 2 ^ 53
   \<and> truthy (ParseHeader ''t=700,v1=bad,v1=k700.{}'' ''t'')
   \<and> timestamp_of ''t=700,v1=bad,v1=k700.{}'' = Num (1000999 div 1000 - 300)
   \<and> concat_mac ''k'' (js_toString (Num (1000999 div 1000 - 300)) @ ''.'' @ ''{}'')
        \<in> set (signatures_of (ParseHeader ''t=700,v1=bad,v1=k700.{}'' ''v1''))
   \<and> Verify concat_mac 1000999 ''{}'' ''t=700,v1=bad,v1=k700.{}'' ''k'' 300 = Inr ()
   \<and> truthy (ParseHeader ''t=699,v1=k699.{}'' ''t'')
   \<and> truthy (ParseHeader ''t=699,v1=k699.{}'' ''v1'')
   \<and> timestamp_of ''t=699,v1=k699.{}'' = Num (1000999 div 1000 - 300 - 1)
   \<and> Verify concat_mac 1000999 ''{}'' ''t=699,v1=k699.{}'' ''k'' 300 = Inl tolerance_error
   \<and> Verify concat_mac 1000999 ''{}'' ''t=5,v1=k5.{}'' ''k'' 0 \<noteq> Inl tolerance_error
   \<and> Verify concat_mac 1000999 ''{}'' ''t=5,v1=k5.{}'' ''k'' 0
       = Verify concat_mac 0 ''{}'' ''t=5,v1=k5.{}'' ''k'' 0"
proof -
  have a1: "truthy (ParseHeader ''t=700,v1=bad,v1=k700.{}'' ''t'')"
    by (simp add: header_simps)
  have a2: "timestamp_of ''t=700,v1=bad,v1=k700.{}'' = Num (1000999 div 1000 - 300)"
    by (simp add: header_simps)
  have a3: "concat_mac ''k'' (js_toString (Num (1000999 div 1000 - 300)) @ ''.'' @ ''{}'')
        \<in> set (signatures_of (ParseHeader ''t=700,v1=bad,v1=k700.{}'' ''v1''))"
    by (simp add: header_simps)
  have b1: "truthy (ParseHeader ''t=699,v1=k699.{}'' ''t'')"
    by (simp add: header_simps)
  have b2: "truthy (ParseHeader ''t=699,v1=k699.{}'' ''v1'')"
    by (simp add: header_simps)
  have b3: "timestamp_of ''t=699,v1=k699.{}'' = Num (1000999 div 1000 - 300 - 1)"
    by (simp add: header_simps)
  have p: "(0::int) < 300" "(300::int) < 2 ^ 53" "(300::int) \<le> 2 ^ 53" by simp_all
  note t = Verify_tolerance_boundary [of 300 "''t=700,v1=bad,v1=k700.{}''" 1000999 concat_mac
      "''k''" "''{}''" "''t=699,v1=k699.{}''" "''t=5,v1=k5.{}''" 0]
  show ?thesis using t p a1 a2 a3 b1 b2 b3 by blast
qed

text \<open>
  C8, as stated, fails for the header timestamp \<open>9007199254740993\<close> (\<open>2^53 + 1\<close>): the only
  \<open>v1\<close> candidate is the HMAC of \<open>"9007199254740993.{}"\<close>, the header's \<open>t\<close> and the payload,
  and the timestamp passes the freshness check, yet \<open>Verify\<close> fails with the signature-mismatch
  error. \<open>parseInt\<close> rounds the timestamp to the double \<open>2^53\<close>, and the code signs
  \<open>"9007199254740992.{}"\<close>.
\<close>

theorem Verify_any_candidate_counterexample:
  "timestampStr_of (ParseHeader ''t=9007199254740993,v1=k9007199254740993.{}'' ''t'')
     = ''9007199254740993''
   \<and> signatures_of (ParseHeader ''t=9007199254740993,v1=k9007199254740993.{}'' ''v1'')
     = [concat_mac ''k'' (''9007199254740993'' @ ''.'' @ ''{}'')]
   \<and> Verify concat_mac 1000999 ''{}'' ''t=9007199254740993,v1=k9007199254740993.{}'' ''k'' 300
     = Inl mismatch_error"
proof -
  have p1: "ParseHeader ''t=9007199254740993,v1=k9007199254740993.{}'' ''t''
              = Some (Str ''9007199254740993'')"
    by (simp add: header_simps)
  have p2: "ParseHeader ''t=9007199254740993,v1=k9007199254740993.{}'' ''v1''
              = Some (Str ''k9007199254740993.{}'')"
    by (simp add: header_simps)
  have p3: "parseInt10 ''9007199254740993'' = Num 9007199254740992"
    by (simp add: header_simps)
  have p5: "js_sub (Num 1000) (Num 9007199254740992) = Num (- 9007199254739992)"
    by (simp add: header_simps)
  have p6: "js_toString (Num 9007199254740992) = ''9007199254740992''"
    by (simp add: header_simps)
  have r: "Verify concat_mac 1000999 ''{}'' ''t=9007199254740993,v1=k9007199254740993.{}'' ''k'' 300
     = Inl mismatch_error"
    by (simp add: Verify_unfold timestamp_of_def p1 p2 p3 p5 p6 expectedSignature_of_def
          concat_mac_def del: js_sub.simps js_toString.simps)
  show ?thesis using r by (simp add: p1 p2 concat_mac_def)
qed

text \<open>
  C8, amended. The candidate list \<open>Verify\<close> reads from the parsed header is every \<open>v1\<close> pair of
  the comma-separated header, in header order (a pair being an item whose key and value, the
  first two pieces around \<open>=\<close>, are both non-empty). The expected signature is the HMAC of
  \<open>"{t}.{payload}"\<close> under the secret, \<open>{t}\<close> being the parsed timestamp as the template literal
  prints it: the header's own \<open>t\<close> whenever that is the decimal text of an integer of magnitude
  at most \<open>2^53\<close>. For a header with a timestamp and a candidate that passes the freshness
  check, \<open>Verify\<close> succeeds exactly when some candidate equals the expected signature, and
  fails with the signature-mismatch error exactly when none does; in particular it succeeds
  when of two candidates only the second matches. It never fails with the signature-mismatch
  error while a candidate matches.
\<close>

theorem Verify_any_candidate:
  "signatures_of (ParseHeader header ''v1'') = pair_values ''v1'' (js_split CHR '','' header)
   \<and> expectedSignature_of hmac secret header payload
       = hmac secret (js_toString (timestamp_of header) @ ''.'' @ payload)
   \<and> (\<forall>n. \<bar>n\<bar> \<le> 2 ^ 53 \<and> timestampStr_of (ParseHeader header ''t'') = decimal n
         \<longrightarrow> timestamp_of header = Num n
             \<and> expectedSignature_of hmac secret header payload
                 = hmac secret (timestampStr_of (ParseHeader header ''t'') @ ''.'' @ payload))
   \<and> (Verify hmac date_now payload header secret tolerance = Inl mismatch_error
        \<longrightarrow> expectedSignature_of hmac secret header payload
              \<notin> set (pair_values ''v1'' (js_split CHR '','' header)))
   \<and> (truthy (ParseHeader header ''t'') \<and> truthy (ParseHeader header ''v1'')
       \<and> \<not> (0 < tolerance
             \<and> js_gt (js_sub (Num (date_now div 1000)) (timestamp_of header)) (Num tolerance))
       \<longrightarrow> (Verify hmac date_now payload header secret tolerance = Inr ()
              \<longleftrightarrow> expectedSignature_of hmac secret header payload
                    \<in> set (pair_values ''v1'' (js_split CHR '','' header)))
           \<and> (Verify hmac date_now payload header secret tolerance = Inl mismatch_error
              \<longleftrightarrow> expectedSignature_of hmac secret header payload
                    \<notin> set (pair_values ''v1'' (js_split CHR '','' header)))
           \<and> (\<forall>a. pair_values ''v1'' (js_split CHR '','' header)
                      = [a, expectedSignature_of hmac secret header payload]
                    \<and> a \<noteq> expectedSignature_of hmac secret header payload
                 \<longrightarrow> Verify hmac date_now payload header secret tolerance = Inr ()))"
proof (intro conjI)
  show "signatures_of (ParseHeader header ''v1'') = pair_values ''v1'' (js_split CHR '','' header)"
    by (rule ParseHeader_values)
  show "expectedSignature_of hmac secret header payload
       = hmac secret (js_toString (timestamp_of header) @ ''.'' @ payload)"
    by (simp add: expectedSignature_of_def)
  show "\<forall>n. \<bar>n\<bar> \<le> 2 ^ 53 \<and> timestampStr_of (ParseHeader header ''t'') = decimal n
         \<longrightarrow> timestamp_of header = Num n
             \<and> expectedSignature_of hmac secret header payload
                 = hmac secret (timestampStr_of (ParseHeader header ''t'') @ ''.'' @ payload)"
    by (simp add: timestamp_of_def expectedSignature_of_def parseInt10_decimal js_toString_small
          del: js_toString.simps)
  show "Verify hmac date_now payload header secret tolerance = Inl mismatch_error
        \<longrightarrow> expectedSignature_of hmac secret header payload
              \<notin> set (pair_values ''v1'' (js_split CHR '','' header))"
    using error_distinct
    by (auto simp add: Verify_unfold ParseHeader_values split: if_splits)
  show "truthy (ParseHeader header ''t'') \<and> truthy (ParseHeader header ''v1'')
       \<and> \<not> (0 < tolerance
             \<and> js_gt (js_sub (Num (date_now div 1000)) (timestamp_of header)) (Num tolerance))
       \<longrightarrow> (Verify hmac date_now payload header secret tolerance = Inr ()
              \<longleftrightarrow> expectedSignature_of hmac secret header payload
                    \<in> set (pair_values ''v1'' (js_split CHR '','' header)))
           \<and> (Verify hmac date_now payload header secret tolerance = Inl mismatch_error
              \<longleftrightarrow> expectedSignature_of hmac secret header payload
                    \<notin> set (pair_values ''v1'' (js_split CHR '','' header)))
           \<and> (\<forall>a. pair_values ''v1'' (js_split CHR '','' header)
                      = [a, expectedSignature_of hmac secret header payload]
                    \<and> a \<noteq> expectedSignature_of hmac secret header payload
                 \<longrightarrow> Verify hmac date_now payload header secret tolerance = Inr ())"
    by (auto simp add: Verify_unfold ParseHeader_values)
qed

theorem Verify_any_candidate_witness:
  "pair_values ''v1'' (js_split CHR '','' ''t=700,v1=bad,v1=k700.{}'') = [''bad'', ''k700.{}'']
   \<and> \<bar>700::int\<bar> \<le> 2 ^ 53
   \<and> timestampStr_of (ParseHeader ''t=700,v1=bad,v1=k700.{}'' ''t'') = decimal 700
   \<and> timestamp_of ''t=700,v1=bad,v1=k700.{}'' = Num 700
   \<and> truthy (ParseHeader ''t=700,v1=bad,v1=k700.{}'' ''t'')
   \<and> truthy (ParseHeader ''t=700,v1=bad,v1=k700.{}'' ''v1'')
   \<and> \<not> (0 < (300::int) \<and> js_gt (js_sub (Num (1000999 div 1000))
            (timestamp_of ''t=700,v1=bad,v1=k700.{}'')) (Num 300))
   \<and> expectedSignature_of concat_mac ''k'' ''t=700,v1=bad,v1=k700.{}'' ''{}''
       = concat_mac ''k'' (''700'' @ ''.'' @ ''{}'')
   \<and> ''bad'' \<noteq> ''k700.{}''
   \<and> signatures_of (ParseHeader ''t=700,v1=bad,v1=k700.{}'' ''v1'') = [''bad'', ''k700.{}'']
   \<and> Verify concat_mac 1000999 ''{}'' ''t=700,v1=bad,v1=k700.{}'' ''k'' 300 = Inr ()"
proof -
  have v: "pair_values ''v1'' (js_split CHR '','' ''t=700,v1=bad,v1=k700.{}'')
             = [''bad'', ''k700.{}'']"
    by (simp add: pair_values_def)
  have a0: "\<bar>700::int\<bar> \<le> 2 ^ 53" by simp
  have ts: "timestampStr_of (ParseHeader ''t=700,v1=bad,v1=k700.{}'' ''t'') = ''700''"
    by (simp add: header_simps)
  have dc: "decimal 700 = ''700''" by (simp add: header_simps)
  have a1: "truthy (ParseHeader ''t=700,v1=bad,v1=k700.{}'' ''t'')"
    by (simp add: header_simps)
  have a2: "truthy (ParseHeader ''t=700,v1=bad,v1=k700.{}'' ''v1'')"
    by (simp add: header_simps)
  note t = Verify_any_candidate [of "''t=700,v1=bad,v1=k700.{}''" concat_mac "''k''" "''{}''"
      1000999 300]
  from t [THEN conjunct2, THEN conjunct2, THEN conjunct1, rule_format, of 700] a0 ts dc
  have tn: "timestamp_of ''t=700,v1=bad,v1=k700.{}'' = Num 700"
    and e: "expectedSignature_of concat_mac ''k'' ''t=700,v1=bad,v1=k700.{}'' ''{}''
              = concat_mac ''k'' (''700'' @ ''.'' @ ''{}'')"
    by simp_all
  have a3: "\<not> (0 < (300::int) \<and> js_gt (js_sub (Num (1000999 div 1000))
            (timestamp_of ''t=700,v1=bad,v1=k700.{}'')) (Num 300))"
    by (simp add: tn number_of_int_def to_double_def)
  have n: "''bad'' \<noteq> ''k700.{}''" by simp
  from t [THEN conjunct1] have s: "signatures_of (ParseHeader ''t=700,v1=bad,v1=k700.{}'' ''v1'')
                    = [''bad'', ''k700.{}'']"
    using v by simp
  from t [THEN conjunct2, THEN conjunct2, THEN conjunct2, THEN conjunct2] a1 a2 a3 v e
  have r: "Verify concat_mac 1000999 ''{}'' ''t=700,v1=bad,v1=k700.{}'' ''k'' 300 = Inr ()"
    by (simp add: concat_mac_def)
  show ?thesis using v a0 ts dc tn a1 a2 a3 e n s r by simp
qed

text \<open>
  C10. For a header whose \<open>t\<close> value is present and on which \<open>parseInt\<close> yields \<open>NaN\<close>, and a
  tolerance above 0, \<open>Verify\<close> never fails with the timestamp-tolerance error; the signed payload
  is \<open>"NaN."\<close> followed by the payload; and, a \<open>v1\<close> candidate being present, \<open>Verify\<close> succeeds if
  some candidate equals the HMAC of that string and fails with the signature-mismatch error
  otherwise.
\<close>

theorem Verify_unparseable_timestamp:
  assumes "truthy (ParseHeader header ''t'')"
      and "timestamp_of header = NaN"
      and "0 < tolerance"
  shows "Verify hmac date_now payload header secret tolerance \<noteq> Inl tolerance_error
         \<and> expectedSignature_of hmac secret header payload = hmac secret (''NaN.'' @ payload)
         \<and> (truthy (ParseHeader header ''v1'') \<longrightarrow>
              Verify hmac date_now payload header secret tolerance =
                (if hmac secret (''NaN.'' @ payload) \<in> set (signatures_of (ParseHeader header ''v1''))
                 then Inr () else Inl mismatch_error))"
  using assms error_distinct
  by (auto simp add: Verify_unfold expectedSignature_of_def)

theorem Verify_unparseable_timestamp_witness:
  "truthy (ParseHeader ''t=abc,v1=bad'' ''t'') \<and> timestamp_of ''t=abc,v1=bad'' = NaN
   \<and> (0::int) < 300 \<and> truthy (ParseHeader ''t=abc,v1=bad'' ''v1'')
   \<and> Verify concat_mac 1000999 ''{}'' ''t=abc,v1=bad'' ''k'' 300 = Inl mismatch_error
   \<and> truthy (ParseHeader ''t=abc,v1=kNaN.{}'' ''t'') \<and> timestamp_of ''t=abc,v1=kNaN.{}'' = NaN
   \<and> truthy (ParseHeader ''t=abc,v1=kNaN.{}'' ''v1'')
   \<and> Verify concat_mac 1000999 ''{}'' ''t=abc,v1=kNaN.{}'' ''k'' 300 = Inr ()"
proof -
  have a1: "truthy (ParseHeader ''t=abc,v1=bad'' ''t'')" by (simp add: header_simps)
  have a2: "timestamp_of ''t=abc,v1=bad'' = NaN" by (simp add: header_simps)
  have a3: "truthy (ParseHeader ''t=abc,v1=bad'' ''v1'')" by (simp add: header_simps)
  have a4: "signatures_of (ParseHeader ''t=abc,v1=bad'' ''v1'') = [''bad'']"
    by (simp add: header_simps)
  have b1: "truthy (ParseHeader ''t=abc,v1=kNaN.{}'' ''t'')" by (simp add: header_simps)
  have b2: "timestamp_of ''t=abc,v1=kNaN.{}'' = NaN" by (simp add: header_simps)
  have b3: "truthy (ParseHeader ''t=abc,v1=kNaN.{}'' ''v1'')" by (simp add: header_simps)
  have b4: "signatures_of (ParseHeader ''t=abc,v1=kNaN.{}'' ''v1'') = [''kNaN.{}'']"
    by (simp add: header_simps)
  have p: "(0::int) < 300" by simp
  from Verify_unparseable_timestamp [OF a1 a2 p, of concat_mac 1000999 "''{}''" "''k''"] a3 a4
  have r1: "Verify concat_mac 1000999 ''{}'' ''t=abc,v1=bad'' ''k'' 300 = Inl mismatch_error"
    by (simp add: concat_mac_def)
  from Verify_unparseable_timestamp [OF b1 b2 p, of concat_mac 1000999 "''{}''" "''k''"] b3 b4
  have r2: "Verify concat_mac 1000999 ''{}'' ''t=abc,v1=kNaN.{}'' ''k'' 300 = Inr ()"
    by (simp add: concat_mac_def)
  show ?thesis using a1 a2 a3 b1 b2 b3 p r1 r2 by blast
qed

end
